theory Spec2Isabelle
  imports Main "HOL-Library.AList"
begin

section \<open>JavaScript values and objects\<close>

text \<open>
  The repository is JavaScript: rows, request parts and cached snapshots are plain
  objects whose fields are present or absent at run time. A value is a \<open>jsval\<close>; an
  object is an association list from field names to values, in insertion order.
  \<open>JDate t\<close> is a \<^verbatim>\<open>Date\<close> holding \<open>t\<close> milliseconds since the epoch, and
  \<open>JDateString t\<close> is the string \<^verbatim>\<open>new Date(t).toJSON()\<close>, its ISO form.
  \<open>JText v\<close> is the string \<^verbatim>\<open>JSON.stringify(v)\<close>, kept symbolic: it is a string (a
  primitive, never empty).
\<close>

datatype jsval =
    JUndefined
  | JNull
  | JBool bool
  | JNum int
  | JStr string
  | JDate int
  | JDateString int
  | JText jsval
  | JArr "jsval list"
  | JObj "(string \<times> jsval) list"

type_synonym obj = "(string \<times> jsval) list"

text \<open>Truthiness, as \<^verbatim>\<open>if (v)\<close>, \<^verbatim>\<open>!v\<close> and \<^verbatim>\<open>a || b\<close> read a value.\<close>

fun truthy :: "jsval \<Rightarrow> bool" where
  "truthy JUndefined = False"
| "truthy JNull = False"
| "truthy (JBool b) = b"
| "truthy (JNum n) = (n \<noteq> 0)"
| "truthy (JStr s) = (s \<noteq> [])"
| "truthy (JDate t) = True"
| "truthy (JDateString t) = True"
| "truthy (JText v) = True"
| "truthy (JArr vs) = True"
| "truthy (JObj kvs) = True"

text \<open>\<^verbatim>\<open>a || b\<close>: the first operand when it is truthy, else the second.\<close>

definition js_or :: "jsval \<Rightarrow> jsval \<Rightarrow> jsval" where
  "js_or a b = (if truthy a then a else b)"

text \<open>
  \<^verbatim>\<open>a === b\<close>: primitives compare by value; two objects, arrays or dates are equal only
  when they are the same reference, which values coming from different parsers never are.
\<close>

fun is_primitive :: "jsval \<Rightarrow> bool" where
  "is_primitive (JDate t) = False"
| "is_primitive (JArr vs) = False"
| "is_primitive (JObj kvs) = False"
| "is_primitive v = True"

definition strict_eq :: "jsval \<Rightarrow> jsval \<Rightarrow> bool" where
  "strict_eq a b = (is_primitive a \<and> a = b)"

text \<open>\<^verbatim>\<open>o[k]\<close> (\<^verbatim>\<open>undefined\<close> when the field is absent), and the field names of an object.\<close>

definition obj_get :: "obj \<Rightarrow> string \<Rightarrow> jsval" where
  "obj_get ob k = (case map_of ob k of None \<Rightarrow> JUndefined | Some v \<Rightarrow> v)"

definition obj_keys :: "obj \<Rightarrow> string set" where
  "obj_keys ob = fst ` set ob"

text \<open>\<^verbatim>\<open>o[k] = v\<close>: an existing field keeps its place, a new one is appended.\<close>

definition obj_set :: "obj \<Rightarrow> string \<Rightarrow> jsval \<Rightarrow> obj" where
  "obj_set ob k v = AList.update k v ob"

text \<open>The object without the fields named in \<open>ks\<close>.\<close>

definition obj_omit :: "string list \<Rightarrow> obj \<Rightarrow> obj" where
  "obj_omit ks ob = filter (\<lambda>kv. fst kv \<notin> set ks) ob"

section \<open>Errors\<close>

text \<open>
  \<^verbatim>\<open>ApiError(statusCode, message, code)\<close> of \<^verbatim>\<open>middleware/generic/errorHandler.js\<close>. The
  messages of the source are Chinese string literals; each distinct literal is one
  constructor of \<open>message\<close>, named after what it says. \<open>Thrown name\<close> is any exception
  that is not an \<^verbatim>\<open>ApiError\<close> (a driver error, a \<^verbatim>\<open>TypeError\<close>), with its \<^verbatim>\<open>name\<close>
  property.
\<close>

datatype message =
    Msg_token_missing
  | Msg_token_format
  | Msg_token_revoked
  | Msg_token_expired
  | Msg_token_invalid
  | Msg_auth_system_error
  | Msg_auth_required
  | Msg_tenant_denied
  | Msg_username_exists
  | Msg_email_exists
  | Msg_registration_failed
  | Msg_credentials_incorrect
  | Msg_account_inactive
  | Msg_account_locked
  | Msg_login_failed
  | Msg_list_failed
  | Msg_user_not_found
  | Msg_details_failed
  | Msg_update_failed
  | Msg_delete_failed
  | Msg_logout_success

datatype js_error =
    ApiError int message string
  | Thrown string

text \<open>\<^verbatim>\<open>constants/statusCodes.js\<close>.\<close>

definition UNAUTHORIZED :: int where "UNAUTHORIZED = 401"
definition FORBIDDEN :: int where "FORBIDDEN = 403"
definition NOT_FOUND :: int where "NOT_FOUND = 404"
definition CONFLICT :: int where "CONFLICT = 409"
definition INTERNAL_SERVER_ERROR :: int where "INTERNAL_SERVER_ERROR = 500"

section \<open>The request and the identity a token carries\<close>

text \<open>
  \<^verbatim>\<open>req.user\<close> is the decoded token payload. \<^verbatim>\<open>generateToken\<close> signs
  \<^verbatim>\<open>{id, username, email, roles, tenantId}\<close> and the library adds \<^verbatim>\<open>exp\<close> (in seconds);
  the fields the middleware and the service read are kept. The \<^verbatim>\<open>roles\<close> claim is an
  array.
\<close>

record identity =
  ident_id :: jsval
  ident_roles :: "jsval list"
  ident_tenantId :: jsval
  ident_exp :: "int option"

record request =
  authorization :: "string option"
  params :: obj
  body :: obj
  query :: obj
  req_user :: "identity option"

section \<open>Tenant isolation (\<^verbatim>\<open>middleware/auth/jwtAuth.js\<close>, \<^verbatim>\<open>tenantAccess\<close>)\<close>

text \<open>
  \<^verbatim>\<open>req.params[paramName] || req.body[paramName] || req.query[paramName]\<close>.
\<close>

definition requestedTenantId :: "string \<Rightarrow> request \<Rightarrow> jsval" where
  "requestedTenantId paramName req =
     js_or (js_or (obj_get (params req) paramName) (obj_get (body req) paramName))
           (obj_get (query req) paramName)"

text \<open>
  The middleware calls \<^verbatim>\<open>next()\<close> (\<open>Inr ()\<close>) or \<^verbatim>\<open>next(error)\<close> (\<open>Inl error\<close>). It reads
  the request only: no store and no cache.
\<close>

definition tenantAccess :: "string \<Rightarrow> request \<Rightarrow> js_error + unit" where
  "tenantAccess paramName req =
     (case req_user req of
        None \<Rightarrow> Inl (ApiError UNAUTHORIZED Msg_auth_required ''AUTH_REQUIRED'')
      | Some u \<Rightarrow>
          if JStr ''admin'' \<in> set (ident_roles u) then Inr ()
          else if \<not> truthy (requestedTenantId paramName req)
                  \<or> \<not> strict_eq (requestedTenantId paramName req) (ident_tenantId u)
          then Inl (ApiError FORBIDDEN Msg_tenant_denied ''AUTH_TENANT_ACCESS_DENIED'')
          else Inr ())"

section \<open>The store and the cache\<close>

text \<open>
  The credential store holds the tables of the Sequelize models that
  \<^verbatim>\<open>utils/database.js\<close> registers (\<^verbatim>\<open>initModels\<close>: \<^verbatim>\<open>User\<close> is \<^verbatim>\<open>models/sysUser.js\<close>),
  each a list of rows named after its \<^verbatim>\<open>tableName\<close>. \<open>db\<close> says how the store answers:
  \<open>DbCannotConnect\<close> makes \<^verbatim>\<open>database.getConnection\<close> throw, \<open>DbQueryFails\<close> hands out the
  connection and makes every query reject.

  The cache is the Redis server behind \<^verbatim>\<open>utils/redis.js\<close>: a key holds a stored text
  and the time, in milliseconds, at which it expires (\<open>None\<close>: never). With
  \<open>cache_up = False\<close> every command of the driver rejects.
\<close>

datatype db_status = DbOk | DbQueryFails | DbCannotConnect

record state =
  db :: db_status
  cache_up :: bool
  sys_user :: "obj list"
  sys_role :: "obj list"
  sys_permission :: "obj list"
  sys_user_role :: "obj list"
  sys_role_permission :: "obj list"
  cache :: "string \<Rightarrow> (jsval \<times> int option) option"

text \<open>\<^verbatim>\<open>constants/business.js\<close>: \<^verbatim>\<open>CACHE_PREFIXES.USER\<close> and \<^verbatim>\<open>CACHE_TTL\<close> (seconds).\<close>

definition CACHE_PREFIXES_USER :: string where "CACHE_PREFIXES_USER = ''user:''"
definition CACHE_TTL_MEDIUM :: int where "CACHE_TTL_MEDIUM = 300"
definition CACHE_TTL_LONG :: int where "CACHE_TTL_LONG = 3600"
definition CACHE_TTL_DAY :: int where "CACHE_TTL_DAY = 86400"

subsection \<open>Template literals\<close>

text \<open>
  \<^verbatim>\<open>`${prefix}${id}`\<close> turns the id into a string. Ids are strings (the primary key is
  \<^verbatim>\<open>STRING(32)\<close>) or numbers; the other primitives print as JavaScript prints them.
  Dates, date strings, arrays, objects and symbolic texts do not occur as ids; they
  print as \<^verbatim>\<open>[object Object]\<close> here.
\<close>

function digits :: "nat \<Rightarrow> string" where
  "digits n = (if n < 10 then [char_of (48 + n)] else digits (n div 10) @ [char_of (48 + n mod 10)])"
  by pat_completeness auto
termination
  by (relation "measure id") auto

declare digits.simps [simp del]

fun str_of :: "jsval \<Rightarrow> string" where
  "str_of (JStr s) = s"
| "str_of (JNum n) = (if n < 0 then CHR ''-'' # digits (nat (- n)) else digits (nat n))"
| "str_of (JBool b) = (if b then ''true'' else ''false'')"
| "str_of JNull = ''null''"
| "str_of JUndefined = ''undefined''"
| "str_of v = ''[object Object]''"

text \<open>The key of a user's cached snapshot: \<^verbatim>\<open>`${CACHE_PREFIXES.USER}${id}`\<close>.\<close>

definition user_key :: "jsval \<Rightarrow> string" where
  "user_key uid = CACHE_PREFIXES_USER @ str_of uid"

subsection \<open>The driver (\<^verbatim>\<open>this.client\<close>, ioredis)\<close>

definition live :: "int \<Rightarrow> int option \<Rightarrow> bool" where
  "live now e = (case e of None \<Rightarrow> True | Some t \<Rightarrow> now < t)"

text \<open>\<^verbatim>\<open>client.get(key)\<close>: the stored text, \<^verbatim>\<open>null\<close> for a key that is absent or expired.\<close>

definition client_get :: "state \<Rightarrow> int \<Rightarrow> string \<Rightarrow> js_error + jsval" where
  "client_get st now key =
     (if \<not> cache_up st then Inl (Thrown ''Error'')
      else case cache st key of
             None \<Rightarrow> Inr JNull
           | Some (text, e) \<Rightarrow> if live now e then Inr text else Inr JNull)"

text \<open>
  \<^verbatim>\<open>client.setex(key, ttl, text)\<close>: the server refuses a time to live that is not
  positive (\<^verbatim>\<open>ERR invalid expire time\<close>); otherwise the key expires \<open>ttl\<close> seconds from now.
\<close>

definition client_setex :: "state \<Rightarrow> int \<Rightarrow> string \<Rightarrow> int \<Rightarrow> jsval \<Rightarrow> js_error + state" where
  "client_setex st now key ttl text =
     (if \<not> cache_up st then Inl (Thrown ''Error'')
      else if ttl \<le> 0 then Inl (Thrown ''ReplyError'')
      else Inr (st\<lparr>cache := (cache st)(key \<mapsto> (text, Some (now + ttl * 1000)))\<rparr>))"

text \<open>\<^verbatim>\<open>client.set(key, text)\<close>: the key is stored with no expiry.\<close>

definition client_set :: "state \<Rightarrow> string \<Rightarrow> jsval \<Rightarrow> js_error + state" where
  "client_set st key text =
     (if \<not> cache_up st then Inl (Thrown ''Error'')
      else Inr (st\<lparr>cache := (cache st)(key \<mapsto> (text, None))\<rparr>))"

definition client_del :: "state \<Rightarrow> string \<Rightarrow> js_error + state" where
  "client_del st key =
     (if \<not> cache_up st then Inl (Thrown ''Error'')
      else Inr (st\<lparr>cache := (cache st)(key := None)\<rparr>))"

subsection \<open>\<^verbatim>\<open>RedisClient\<close> (\<^verbatim>\<open>utils/redis.js\<close>)\<close>

text \<open>
  What \<^verbatim>\<open>JSON.parse(JSON.stringify(v))\<close> gives back for \<open>v\<close>: a \<^verbatim>\<open>Date\<close> has become its
  ISO string (\<^verbatim>\<open>toJSON\<close>), a field whose value is \<^verbatim>\<open>undefined\<close> is dropped, an
  \<^verbatim>\<open>undefined\<close> element of an array has become \<^verbatim>\<open>null\<close>, and a string (also one that is
  itself a JSON text) is the same string.
\<close>

fun json_roundtrip :: "jsval \<Rightarrow> jsval" where
  "json_roundtrip (JDate t) = JDateString t"
| "json_roundtrip (JArr vs) =
     JArr (map (\<lambda>v. if v = JUndefined then JNull else json_roundtrip v) vs)"
| "json_roundtrip (JObj kvs) =
     JObj (map (\<lambda>kv. (fst kv, json_roundtrip (snd kv)))
               (filter (\<lambda>kv. snd kv \<noteq> JUndefined) kvs))"
| "json_roundtrip v = v"

text \<open>
  \<^verbatim>\<open>JSON.parse\<close> of a text that \<^verbatim>\<open>JSON.stringify\<close> produced. Every text the repository
  stores is one; any other argument counts as malformed.
\<close>

fun JSON_parse :: "jsval \<Rightarrow> js_error + jsval" where
  "JSON_parse (JText v) = Inr (json_roundtrip v)"
| "JSON_parse v = Inl (Thrown ''SyntaxError'')"

text \<open>\<^verbatim>\<open>get(key)\<close>: every failure is caught and answered with \<^verbatim>\<open>null\<close>.\<close>

definition redis_get :: "state \<Rightarrow> int \<Rightarrow> string \<Rightarrow> jsval" where
  "redis_get st now key =
     (case client_get st now key of
        Inl e \<Rightarrow> JNull
      | Inr text \<Rightarrow>
          if truthy text
          then (case JSON_parse text of Inl e \<Rightarrow> JNull | Inr v \<Rightarrow> v)
          else JNull)"

text \<open>
  \<^verbatim>\<open>set(key, value, ttl)\<close>: the value is serialised; a truthy \<open>ttl\<close> goes to
  \<^verbatim>\<open>setex\<close>, a \<open>ttl\<close> of 0 to the plain \<^verbatim>\<open>set\<close>. Every failure is caught and answered
  with \<^verbatim>\<open>false\<close>.
\<close>

definition redis_set :: "state \<Rightarrow> int \<Rightarrow> string \<Rightarrow> jsval \<Rightarrow> int \<Rightarrow> bool \<times> state" where
  "redis_set st now key v ttl =
     (case (if ttl \<noteq> 0 then client_setex st now key ttl (JText v)
            else client_set st key (JText v)) of
        Inl e \<Rightarrow> (False, st)
      | Inr st' \<Rightarrow> (True, st'))"

text \<open>\<^verbatim>\<open>del(key)\<close>: every failure is caught and answered with \<^verbatim>\<open>false\<close>.\<close>

definition redis_del :: "state \<Rightarrow> string \<Rightarrow> bool \<times> state" where
  "redis_del st key =
     (case client_del st key of Inl e \<Rightarrow> (False, st) | Inr st' \<Rightarrow> (True, st'))"

section \<open>Tokens (the jsonwebtoken library)\<close>

text \<open>
  The library is not part of the repository; it is a parameter. \<open>lib token\<close> is \<open>None\<close>
  for a string that does not parse as a token, and otherwise whether the signature
  matches the configured secret, with the payload. \<^verbatim>\<open>jwt.verify\<close> throws
  \<^verbatim>\<open>JsonWebTokenError\<close> on a malformed token or a bad signature and \<^verbatim>\<open>TokenExpiredError\<close>
  once \<^verbatim>\<open>Math.floor(Date.now() / 1000) >= exp\<close>; \<^verbatim>\<open>jwt.decode\<close> checks nothing and
  returns \<^verbatim>\<open>null\<close> for a string it cannot parse. An exception is \<open>Thrown name\<close>, with
  the \<^verbatim>\<open>name\<close> property the handlers compare.
\<close>

type_synonym jwt_lib = "string \<Rightarrow> (bool \<times> identity) option"

definition jwt_verify :: "jwt_lib \<Rightarrow> int \<Rightarrow> string \<Rightarrow> js_error + identity" where
  "jwt_verify lib now token =
     (case lib token of
        None \<Rightarrow> Inl (Thrown ''JsonWebTokenError'')
      | Some (signed, decoded) \<Rightarrow>
          if \<not> signed then Inl (Thrown ''JsonWebTokenError'')
          else (case ident_exp decoded of
                  None \<Rightarrow> Inr decoded
                | Some e \<Rightarrow>
                    if e \<le> now div 1000 then Inl (Thrown ''TokenExpiredError'')
                    else Inr decoded))"

definition jwt_decode :: "jwt_lib \<Rightarrow> string \<Rightarrow> identity option" where
  "jwt_decode lib token = map_option snd (lib token)"

section \<open>Token verification (\<^verbatim>\<open>middleware/auth/jwtAuth.js\<close>, \<^verbatim>\<open>authenticate\<close>)\<close>

text \<open>
  The inner \<^verbatim>\<open>catch\<close> renames the two library errors and rethrows everything else
  (an \<^verbatim>\<open>ApiError\<close> has the name \<^verbatim>\<open>ApiError\<close>); the outer \<^verbatim>\<open>catch\<close> passes an \<^verbatim>\<open>ApiError\<close>
  on and wraps anything else as \<^verbatim>\<open>AUTH_SYSTEM_ERROR\<close>.
\<close>

definition authenticate_inner_catch :: "js_error \<Rightarrow> js_error" where
  "authenticate_inner_catch error =
     (case error of
        Thrown name \<Rightarrow>
          if name = ''TokenExpiredError''
          then ApiError UNAUTHORIZED Msg_token_expired ''AUTH_TOKEN_EXPIRED''
          else if name = ''JsonWebTokenError''
          then ApiError UNAUTHORIZED Msg_token_invalid ''AUTH_INVALID_TOKEN''
          else error
      | ApiError c m k \<Rightarrow> error)"

definition authenticate_outer_catch :: "js_error \<Rightarrow> js_error" where
  "authenticate_outer_catch error =
     (case error of
        ApiError c m k \<Rightarrow> error
      | Thrown name \<Rightarrow>
          ApiError INTERNAL_SERVER_ERROR Msg_auth_system_error ''AUTH_SYSTEM_ERROR'')"

text \<open>
  The body of the inner \<^verbatim>\<open>try\<close>: verify the token, then look the blacklist key up with
  the driver itself (\<^verbatim>\<open>Redis.client.get\<close>, not the wrapper \<^verbatim>\<open>Redis.get\<close>).
\<close>

definition authenticate_try :: "jwt_lib \<Rightarrow> state \<Rightarrow> int \<Rightarrow> string \<Rightarrow> js_error + identity" where
  "authenticate_try lib st now token =
     (case jwt_verify lib now token of
        Inl e \<Rightarrow> Inl e
      | Inr decoded \<Rightarrow>
          (case client_get st now (''blacklist:'' @ token) of
             Inl e \<Rightarrow> Inl e
           | Inr isBlacklisted \<Rightarrow>
               if truthy isBlacklisted
               then Inl (ApiError UNAUTHORIZED Msg_token_revoked ''AUTH_TOKEN_REVOKED'')
               else Inr decoded))"

text \<open>\<^verbatim>\<open>authHeader.split(' ')[1]\<close> of a header that starts with \<^verbatim>\<open>'Bearer '\<close>.\<close>

definition bearer_token :: "string \<Rightarrow> string" where
  "bearer_token authHeader = takeWhile (\<lambda>c. c \<noteq> CHR '' '') (drop 7 authHeader)"

text \<open>
  \<open>Inr decoded\<close>: \<^verbatim>\<open>req.user = decoded; next()\<close>. \<open>Inl error\<close>: \<^verbatim>\<open>next(error)\<close>.
\<close>

definition authenticate :: "jwt_lib \<Rightarrow> state \<Rightarrow> int \<Rightarrow> request \<Rightarrow> js_error + identity" where
  "authenticate lib st now req =
     (case authorization req of
        None \<Rightarrow> Inl (ApiError UNAUTHORIZED Msg_token_missing ''AUTH_TOKEN_MISSING'')
      | Some authHeader \<Rightarrow>
          if authHeader = [] \<or> take 7 authHeader \<noteq> ''Bearer ''
          then Inl (ApiError UNAUTHORIZED Msg_token_missing ''AUTH_TOKEN_MISSING'')
          else if bearer_token authHeader = []
          then Inl (ApiError UNAUTHORIZED Msg_token_format ''AUTH_INVALID_TOKEN_FORMAT'')
          else (case authenticate_try lib st now (bearer_token authHeader) of
                  Inl e \<Rightarrow> Inl (authenticate_outer_catch (authenticate_inner_catch e))
                | Inr decoded \<Rightarrow> Inr decoded))"

section \<open>The user model (\<^verbatim>\<open>models/sysUser.js\<close>)\<close>

text \<open>
  A row of \<^verbatim>\<open>sys_user\<close> is an object over the attributes of the model. An instance that
  a query returns carries the row; \<^verbatim>\<open>toJSON()\<close> gives the row's fields back.
\<close>

definition sys_user_attributes :: "string list" where
  "sys_user_attributes =
     [''id'', ''username'', ''realname'', ''password'', ''salt'', ''avatar'', ''birthday'',
      ''sex'', ''email'', ''phone'', ''org_code'', ''status'', ''del_flag'', ''third_id'',
      ''third_type'', ''activiti_sync'', ''work_no'', ''telephone'', ''create_by'',
      ''create_time'', ''update_by'', ''update_time'', ''user_identity'', ''depart_ids'',
      ''client_id'', ''login_tenant_id'', ''bpm_status'']"

text \<open>
  \<^verbatim>\<open>getUserModel\<close> awaits \<^verbatim>\<open>database.getConnection\<close>, which throws when no connection can
  be made.
\<close>

definition getUserModel :: "state \<Rightarrow> js_error + unit" where
  "getUserModel st =
     (if db st = DbCannotConnect then Inl (Thrown ''SequelizeConnectionError'') else Inr ())"

text \<open>\<^verbatim>\<open>User.findByPk(id)\<close>: the row whose primary key is \<open>uid\<close>, or \<^verbatim>\<open>null\<close>.\<close>

definition findByPk :: "state \<Rightarrow> jsval \<Rightarrow> js_error + obj option" where
  "findByPk st uid =
     (if db st \<noteq> DbOk then Inl (Thrown ''SequelizeDatabaseError'')
      else Inr (find (\<lambda>row. obj_get row ''id'' = uid) (sys_user st)))"

text \<open>
  \<^verbatim>\<open>attributes: { exclude: [...] }\<close>: the query selects every attribute of the model but
  the excluded ones.
\<close>

definition exclude_attributes :: "string list \<Rightarrow> obj \<Rightarrow> obj" where
  "exclude_attributes ex row = obj_omit ex row"

text \<open>
  \<^verbatim>\<open>this.update_time = new Date(); this.save()\<close> of an instance with primary key \<open>uid\<close>:
  the row of that key gets the new \<^verbatim>\<open>update_time\<close>. The \<^verbatim>\<open>beforeSave\<close> hook does nothing
  here, since the password did not change.
\<close>

definition save_update_time :: "state \<Rightarrow> jsval \<Rightarrow> int \<Rightarrow> state" where
  "save_update_time st uid now =
     st\<lparr>sys_user :=
          map (\<lambda>row. if obj_get row ''id'' = uid then obj_set row ''update_time'' (JDate now)
                      else row)
              (sys_user st)\<rparr>"

text \<open>
  \<^verbatim>\<open>v[k]\<close> for a value that need not be an object: reading a property of \<^verbatim>\<open>undefined\<close>
  or \<^verbatim>\<open>null\<close> throws a \<^verbatim>\<open>TypeError\<close>; a primitive has none of the properties read here.
\<close>

definition property_of :: "jsval \<Rightarrow> string \<Rightarrow> js_error + jsval" where
  "property_of v k =
     (case v of
        JUndefined \<Rightarrow> Inl (Thrown ''TypeError'')
      | JNull \<Rightarrow> Inl (Thrown ''TypeError'')
      | JObj ob \<Rightarrow> Inr (obj_get ob k)
      | _ \<Rightarrow> Inr JUndefined)"

text \<open>
  \<^verbatim>\<open>User.sequelize.Op\<close>. \<^verbatim>\<open>User.sequelize\<close> is the instance that \<^verbatim>\<open>utils/database.js\<close>
  makes with \<^verbatim>\<open>new Sequelize(...)\<close>; the repository adds no property to it. Sequelize 6
  (\<^verbatim>\<open>package.json\<close>: \<^verbatim>\<open>sequelize ^6.33.0\<close>) has the operators as \<^verbatim>\<open>Op\<close> of the class and
  of the module, and an instance has no \<^verbatim>\<open>Op\<close>: the expression is \<^verbatim>\<open>undefined\<close>.
\<close>

definition sequelize_Op :: jsval where
  "sequelize_Op = JUndefined"

text \<open>\<^verbatim>\<open>isLocked\<close>: \<^verbatim>\<open>this.status === 2\<close>.\<close>

definition isLocked :: "obj \<Rightarrow> bool" where
  "isLocked user = strict_eq (obj_get user ''status'') (JNum 2)"

section \<open>The user service (\<^verbatim>\<open>services/sysUserService.js\<close>)\<close>

text \<open>
  An \<^verbatim>\<open>async\<close> method settles: \<open>Inr v\<close> when its promise resolves to \<open>v\<close>, \<open>Inl e\<close> when it
  rejects with \<open>e\<close>. It is given the state and the time (\<^verbatim>\<open>Date.now()\<close>, milliseconds) and
  returns the state it leaves behind. The handler that ends most methods rethrows an
  \<^verbatim>\<open>ApiError\<close> and replaces any other exception by the method's own 500.
\<close>

definition service_catch :: "message \<Rightarrow> string \<Rightarrow> js_error \<Rightarrow> js_error" where
  "service_catch m code error =
     (case error of
        ApiError c m' k \<Rightarrow> error
      | Thrown name \<Rightarrow> ApiError INTERNAL_SERVER_ERROR m code)"

text \<open>
  \<^verbatim>\<open>sanitizeUser\<close>: \<^verbatim>\<open>const { password, passwordResetToken, passwordResetExpires,
  ...sanitizedUser } = user\<close>.
\<close>

definition sanitizeUser :: "obj \<Rightarrow> obj" where
  "sanitizeUser user =
     obj_omit [''password'', ''passwordResetToken'', ''passwordResetExpires''] user"

text \<open>
  \<^verbatim>\<open>getTokenExpiry\<close>: \<^verbatim>\<open>decoded && decoded.exp ? decoded.exp * 1000 : null\<close>.
\<close>

definition getTokenExpiry :: "jwt_lib \<Rightarrow> string \<Rightarrow> int option" where
  "getTokenExpiry lib token =
     (case jwt_decode lib token of
        None \<Rightarrow> None
      | Some decoded \<Rightarrow>
          (case ident_exp decoded of
             None \<Rightarrow> None
           | Some e \<Rightarrow> if e \<noteq> 0 then Some (e * 1000) else None))"

subsection \<open>\<^verbatim>\<open>login\<close>\<close>

text \<open>
  The instance that \<^verbatim>\<open>User.findOne\<close> returns for \<^verbatim>\<open>login\<close> carries the roles of the user
  and, for each role, its permissions (\<^verbatim>\<open>include\<close>).
\<close>

record role_instance =
  role_row :: obj
  role_permissions :: "obj list"

record user_instance =
  user_row :: obj
  user_roles :: "role_instance list"

text \<open>
  The inner \<^verbatim>\<open>include\<close>: the permissions joined to the role through
  \<^verbatim>\<open>sys_role_permission\<close> (\<^verbatim>\<open>role_id\<close>, \<^verbatim>\<open>permission_id\<close>) that satisfy
  \<^verbatim>\<open>where: { del_flag: 0, status: '1' }\<close>. \<^verbatim>\<open>required: false\<close> keeps a role that has none.
  Sequelize builds one instance per primary key, so a permission that is joined twice
  appears once.
\<close>

definition include_permissions :: "state \<Rightarrow> obj \<Rightarrow> obj list" where
  "include_permissions st role =
     filter (\<lambda>perm.
               (\<exists>rp \<in> set (sys_role_permission st).
                   obj_get rp ''role_id'' = obj_get role ''id''
                 \<and> obj_get rp ''permission_id'' = obj_get perm ''id'')
             \<and> obj_get perm ''del_flag'' = JNum 0
             \<and> obj_get perm ''status'' = JStr ''1'')
            (sys_permission st)"

text \<open>
  The outer \<^verbatim>\<open>include\<close>: the roles joined to the user through \<^verbatim>\<open>sys_user_role\<close>
  (\<^verbatim>\<open>user_id\<close>, \<^verbatim>\<open>role_id\<close>).
\<close>

definition include_roles :: "state \<Rightarrow> jsval \<Rightarrow> role_instance list" where
  "include_roles st uid =
     map (\<lambda>role. \<lparr> role_row = role, role_permissions = include_permissions st role \<rparr>)
         (filter (\<lambda>role. \<exists>ur \<in> set (sys_user_role st).
                            obj_get ur ''user_id'' = uid
                          \<and> obj_get ur ''role_id'' = obj_get role ''id'')
                 (sys_role st))"

text \<open>
  \<^verbatim>\<open>User.findOne({ where: { [User.sequelize.Op.or]: [{ username }, { email: username }],
  del_flag: 0 }, include: ... })\<close>. The argument is evaluated before the call: the computed
  key reads \<^verbatim>\<open>or\<close> of \<^verbatim>\<open>User.sequelize.Op\<close>, and when that throws no query is made. In
  the query, column values are compared for equality as they stand.
\<close>

definition findOne_login :: "state \<Rightarrow> string \<Rightarrow> js_error + user_instance option" where
  "findOne_login st username =
     (case property_of sequelize_Op ''or'' of
        Inl e \<Rightarrow> Inl e
      | Inr Op_or \<Rightarrow>
          if db st \<noteq> DbOk then Inl (Thrown ''SequelizeDatabaseError'')
          else Inr (map_option
                      (\<lambda>row. \<lparr> user_row = row,
                                user_roles = include_roles st (obj_get row ''id'') \<rparr>)
                      (find (\<lambda>row. (obj_get row ''username'' = JStr username
                                      \<or> obj_get row ''email'' = JStr username)
                                    \<and> obj_get row ''del_flag'' = JNum 0)
                            (sys_user st))))"

text \<open>
  \<^verbatim>\<open>validatePassword\<close>: \<^verbatim>\<open>bcrypt.compare(candidatePassword, this.password)\<close>. The library
  is a parameter (\<open>compare\<close>); it rejects when the stored password is not a string.
\<close>

definition validatePassword :: "(string \<Rightarrow> string \<Rightarrow> bool) \<Rightarrow> obj \<Rightarrow> string \<Rightarrow> js_error + bool" where
  "validatePassword compare user candidatePassword =
     (case obj_get user ''password'' of
        JStr hash \<Rightarrow> Inr (compare candidatePassword hash)
      | _ \<Rightarrow> Inl (Thrown ''Error''))"

text \<open>\<^verbatim>\<open>toJSON()\<close> of the loaded instance: the row, with the included roles under \<^verbatim>\<open>roles\<close>.\<close>

definition role_toJSON :: "role_instance \<Rightarrow> jsval" where
  "role_toJSON role =
     JObj (obj_set (role_row role) ''permissions'' (JArr (map JObj (role_permissions role))))"

definition toJSON :: "user_instance \<Rightarrow> obj" where
  "toJSON user = obj_set (user_row user) ''roles'' (JArr (map role_toJSON (user_roles user)))"

text \<open>
  \<^verbatim>\<open>generateToken\<close>: \<^verbatim>\<open>jwt.sign(payload, secret, { expiresIn })\<close>; the signing function is
  a parameter, given the payload and the time.
\<close>

definition generateToken :: "(obj \<Rightarrow> int \<Rightarrow> string) \<Rightarrow> int \<Rightarrow> user_instance \<Rightarrow> string" where
  "generateToken sign now user =
     sign [(''id'', obj_get (user_row user) ''id''),
           (''username'', obj_get (user_row user) ''username''),
           (''email'', obj_get (user_row user) ''email''),
           (''roles'', JArr (map role_toJSON (user_roles user))),
           (''tenantId'', obj_get (user_row user) ''tenantId'')] now"

text \<open>
  The two loops that collect the permission codes:
  \<^verbatim>\<open>if (perm.perms && !perms.includes(perm.perms)) perms.push(perm.perms)\<close>.
\<close>

definition push_perm :: "jsval list \<Rightarrow> obj \<Rightarrow> jsval list" where
  "push_perm perms perm =
     (if truthy (obj_get perm ''perms'') \<and> obj_get perm ''perms'' \<notin> set perms
      then perms @ [obj_get perm ''perms'']
      else perms)"

definition extract_permissions :: "role_instance list \<Rightarrow> jsval list" where
  "extract_permissions roles =
     foldl (\<lambda>perms role. foldl push_perm perms (role_permissions role)) [] roles"

text \<open>
  The statements of the \<^verbatim>\<open>try\<close> that follow \<^verbatim>\<open>if (!user) throw ...\<close>, for the instance
  \<open>found\<close> that the query returned. \<^verbatim>\<open>updateLoginTime\<close> of \<^verbatim>\<open>models/sysUser.js\<close> is
  \<^verbatim>\<open>this.update_time = new Date(); return await this.save()\<close>. The snapshot is cached as
  \<^verbatim>\<open>JSON.stringify(userCache)\<close>, a string, which the wrapper serialises once more.
\<close>

definition login_found ::
  "(string \<Rightarrow> string \<Rightarrow> bool) \<Rightarrow> (obj \<Rightarrow> int \<Rightarrow> string) \<Rightarrow> state \<Rightarrow> int \<Rightarrow> user_instance
     \<Rightarrow> string \<Rightarrow> (js_error + jsval) \<times> state" where
  "login_found compare sign st now found password =
     (if \<not> strict_eq (obj_get (user_row found) ''status'') (JNum 1)
      then (Inl (ApiError FORBIDDEN Msg_account_inactive ''AUTH_ACCOUNT_INACTIVE''), st)
      else if isLocked (user_row found)
      then (Inl (ApiError FORBIDDEN Msg_account_locked ''AUTH_ACCOUNT_LOCKED''), st)
      else (case validatePassword compare (user_row found) password of
              Inl e \<Rightarrow> (Inl e, st)
            | Inr isPasswordValid \<Rightarrow>
                if \<not> isPasswordValid
                then (Inl (ApiError UNAUTHORIZED Msg_credentials_incorrect
                             ''AUTH_INVALID_CREDENTIALS''), st)
                else
                  (let uid = obj_get (user_row found) ''id'';
                       user = found\<lparr>user_row :=
                                obj_set (user_row found) ''update_time'' (JDate now)\<rparr>;
                       st1 = save_update_time st uid now;
                       token = generateToken sign now user;
                       perms = extract_permissions (user_roles user);
                       userCache = sanitizeUser
                                     (obj_set (toJSON user) ''permissions'' (JArr perms));
                       st2 = snd (redis_set st1 now (user_key uid)
                                    (JText (JObj userCache)) CACHE_TTL_LONG)
                   in (Inr (JObj [(''user'', JObj userCache), (''token'', JStr token)]),
                       st2))))"

text \<open>The body of the \<^verbatim>\<open>try\<close>: the query, then the statements above.\<close>

definition login_try ::
  "(string \<Rightarrow> string \<Rightarrow> bool) \<Rightarrow> (obj \<Rightarrow> int \<Rightarrow> string) \<Rightarrow> state \<Rightarrow> int \<Rightarrow> string \<Rightarrow> string
     \<Rightarrow> (js_error + jsval) \<times> state" where
  "login_try compare sign st now username password =
     (case findOne_login st username of
        Inl e \<Rightarrow> (Inl e, st)
      | Inr None \<Rightarrow>
          (Inl (ApiError UNAUTHORIZED Msg_credentials_incorrect ''AUTH_INVALID_CREDENTIALS''), st)
      | Inr (Some found) \<Rightarrow> login_found compare sign st now found password)"

text \<open>\<^verbatim>\<open>login\<close>: \<^verbatim>\<open>getUserModel\<close> is awaited before the \<^verbatim>\<open>try\<close>.\<close>

definition login ::
  "(string \<Rightarrow> string \<Rightarrow> bool) \<Rightarrow> (obj \<Rightarrow> int \<Rightarrow> string) \<Rightarrow> state \<Rightarrow> int \<Rightarrow> string \<Rightarrow> string
     \<Rightarrow> (js_error + jsval) \<times> state" where
  "login compare sign st now username password =
     (case getUserModel st of
        Inl e \<Rightarrow> (Inl e, st)
      | Inr User \<Rightarrow>
          (case login_try compare sign st now username password of
             (Inl error, st') \<Rightarrow>
               (Inl (service_catch Msg_login_failed ''AUTH_LOGIN_FAILED'' error), st')
           | (Inr v, st') \<Rightarrow> (Inr v, st')))"

subsection \<open>\<^verbatim>\<open>logout\<close>\<close>

text \<open>
  \<^verbatim>\<open>tokenExpiry ? Math.floor((tokenExpiry - Date.now()) / 1000) : CACHE_TTL.DAY\<close>.
\<close>

definition expiryTime :: "jwt_lib \<Rightarrow> int \<Rightarrow> string \<Rightarrow> int" where
  "expiryTime lib now token =
     (case getTokenExpiry lib token of
        Some tokenExpiry \<Rightarrow> if tokenExpiry \<noteq> 0 then (tokenExpiry - now) div 1000 else CACHE_TTL_DAY
      | None \<Rightarrow> CACHE_TTL_DAY)"

text \<open>\<^verbatim>\<open>user && user.id\<close>.\<close>

definition has_id :: "identity option \<Rightarrow> bool" where
  "has_id user = (case user of None \<Rightarrow> False | Some u \<Rightarrow> truthy (ident_id u))"

text \<open>
  The part of \<^verbatim>\<open>logout\<close> that runs when \<^verbatim>\<open>user && user.id\<close> holds. It stamps the row and
  then calls \<^verbatim>\<open>redisClient.delete(...)\<close>. \<^verbatim>\<open>RedisClient\<close> has the methods \<^verbatim>\<open>get\<close>, \<^verbatim>\<open>set\<close>,
  \<^verbatim>\<open>del\<close>, \<^verbatim>\<open>setWithExpiry\<close>, \<^verbatim>\<open>hgetall\<close>, \<^verbatim>\<open>hset\<close>, \<^verbatim>\<open>hget\<close>, \<^verbatim>\<open>acquireLock\<close>,
  \<^verbatim>\<open>releaseLock\<close>, and no \<^verbatim>\<open>delete\<close>: the call throws a \<^verbatim>\<open>TypeError\<close>, so the cache key
  is left alone and the lines after it never run.
\<close>

definition logout_user_part :: "state \<Rightarrow> int \<Rightarrow> jsval \<Rightarrow> (js_error + bool) \<times> state" where
  "logout_user_part st now uid =
     (case getUserModel st of
        Inl e \<Rightarrow> (Inl e, st)
      | Inr User \<Rightarrow>
          (case findByPk st uid of
             Inl e \<Rightarrow> (Inl e, st)
           | Inr userModel \<Rightarrow>
               (Inl (Thrown ''TypeError''),
                case userModel of None \<Rightarrow> st | Some row \<Rightarrow> save_update_time st uid now)))"

text \<open>The body of the \<^verbatim>\<open>try\<close>.\<close>

definition logout_try ::
  "jwt_lib \<Rightarrow> state \<Rightarrow> int \<Rightarrow> string \<Rightarrow> identity option \<Rightarrow> (js_error + bool) \<times> state" where
  "logout_try lib st now token user =
     (let st1 = snd (redis_set st now (''blacklist:'' @ token) (JStr ''true'')
                       (expiryTime lib now token))
      in if has_id user
         then logout_user_part st1 now (ident_id (the user))
         else (Inr True, st1))"

text \<open>\<^verbatim>\<open>logout\<close>: the \<^verbatim>\<open>catch\<close> logs the exception and returns \<^verbatim>\<open>false\<close>.\<close>

definition logout ::
  "jwt_lib \<Rightarrow> state \<Rightarrow> int \<Rightarrow> string \<Rightarrow> identity option \<Rightarrow> (js_error + bool) \<times> state" where
  "logout lib st now token user =
     (case logout_try lib st now token user of
        (Inl error, st') \<Rightarrow> (Inr False, st')
      | (Inr b, st') \<Rightarrow> (Inr b, st'))"

subsection \<open>\<^verbatim>\<open>getUserById\<close>\<close>

definition getUserById_try :: "state \<Rightarrow> int \<Rightarrow> jsval \<Rightarrow> (js_error + jsval) \<times> state" where
  "getUserById_try st now uid =
     (let cachedUser = redis_get st now (user_key uid)
      in if truthy cachedUser then (Inr cachedUser, st)
         else (case getUserModel st of
                 Inl e \<Rightarrow> (Inl e, st)
               | Inr User \<Rightarrow>
                   (case findByPk st uid of
                      Inl e \<Rightarrow> (Inl e, st)
                    | Inr None \<Rightarrow> (Inl (ApiError NOT_FOUND Msg_user_not_found ''USER_NOT_FOUND''), st)
                    | Inr (Some row) \<Rightarrow>
                        (let userJson = exclude_attributes
                               [''password'', ''passwordResetToken'', ''passwordResetExpires''] row
                         in (Inr (JObj userJson),
                             snd (redis_set st now (user_key uid) (JObj userJson)
                                    CACHE_TTL_MEDIUM))))))"

definition getUserById :: "state \<Rightarrow> int \<Rightarrow> jsval \<Rightarrow> (js_error + jsval) \<times> state" where
  "getUserById st now uid =
     (case getUserById_try st now uid of
        (Inl error, st') \<Rightarrow> (Inl (service_catch Msg_details_failed ''USER_DETAILS_FAILED'' error), st')
      | (Inr v, st') \<Rightarrow> (Inr v, st'))"

subsection \<open>\<^verbatim>\<open>updateUser\<close> and \<^verbatim>\<open>deleteUser\<close>\<close>

text \<open>
  \<^verbatim>\<open>instance.update(values)\<close> sets the fields of \<open>values\<close> that are attributes of the
  model and ignores the others.
\<close>

definition instance_update :: "obj \<Rightarrow> obj \<Rightarrow> obj" where
  "instance_update row values =
     foldl (\<lambda>r kv. if fst kv \<in> set sys_user_attributes then obj_set r (fst kv) (snd kv) else r)
           row values"

text \<open>
  The unique indexes of \<^verbatim>\<open>sys_user\<close> (the primary key, \<^verbatim>\<open>username\<close>, \<^verbatim>\<open>phone\<close>, \<^verbatim>\<open>email\<close>,
  \<^verbatim>\<open>work_no\<close>): a write is refused when another row holds the same value that is not
  \<^verbatim>\<open>NULL\<close>.
\<close>

definition unique_violation :: "obj list \<Rightarrow> obj \<Rightarrow> bool" where
  "unique_violation others row =
     (\<exists>r \<in> set others.
        \<exists>c \<in> set [''id'', ''username'', ''phone'', ''email'', ''work_no''].
          obj_get row c \<noteq> JNull \<and> obj_get row c \<noteq> JUndefined \<and> obj_get r c = obj_get row c)"

text \<open>
  The callback that \<^verbatim>\<open>updateUser\<close> runs in \<^verbatim>\<open>database.transaction\<close>. The update is the
  only write to the store and nothing after it fails, so what the callback leaves is
  what is committed; a failure before it rolls nothing back.
\<close>

definition updateUser_try :: "state \<Rightarrow> jsval \<Rightarrow> obj \<Rightarrow> (js_error + jsval) \<times> state" where
  "updateUser_try st uid userData =
     (case findByPk st uid of
        Inl e \<Rightarrow> (Inl e, st)
      | Inr None \<Rightarrow> (Inl (ApiError NOT_FOUND Msg_user_not_found ''USER_NOT_FOUND''), st)
      | Inr (Some row) \<Rightarrow>
          (let values = obj_omit [''id'', ''password'', ''passwordResetToken'',
                                  ''passwordResetExpires''] userData;
               user = instance_update row values
           in if unique_violation (filter (\<lambda>r. obj_get r ''id'' \<noteq> uid) (sys_user st)) user
              then (Inl (Thrown ''SequelizeUniqueConstraintError''), st)
              else
                (let st1 = st\<lparr>sys_user :=
                              map (\<lambda>r. if obj_get r ''id'' = uid then instance_update r values
                                        else r)
                                  (sys_user st)\<rparr>;
                     st2 = snd (redis_del st1 (user_key uid))
                 in (Inr (JObj (sanitizeUser user)), st2))))"

definition updateUser :: "state \<Rightarrow> jsval \<Rightarrow> obj \<Rightarrow> (js_error + jsval) \<times> state" where
  "updateUser st uid userData =
     (case getUserModel st of
        Inl e \<Rightarrow> (Inl e, st)
      | Inr User \<Rightarrow>
          (case updateUser_try st uid userData of
             (Inl error, st') \<Rightarrow>
               (Inl (service_catch Msg_update_failed ''USER_UPDATE_FAILED'' error), st')
           | (Inr v, st') \<Rightarrow> (Inr v, st')))"

text \<open>
  \<^verbatim>\<open>deleteUser\<close>: the model of \<^verbatim>\<open>sys_user\<close> is not \<^verbatim>\<open>paranoid\<close>, so \<^verbatim>\<open>user.destroy()\<close>
  removes the row.
\<close>

definition deleteUser_try :: "state \<Rightarrow> jsval \<Rightarrow> (js_error + jsval) \<times> state" where
  "deleteUser_try st uid =
     (case findByPk st uid of
        Inl e \<Rightarrow> (Inl e, st)
      | Inr None \<Rightarrow> (Inl (ApiError NOT_FOUND Msg_user_not_found ''USER_NOT_FOUND''), st)
      | Inr (Some row) \<Rightarrow>
          (let st1 = st\<lparr>sys_user := filter (\<lambda>r. obj_get r ''id'' \<noteq> uid) (sys_user st)\<rparr>;
               st2 = snd (redis_del st1 (user_key uid))
           in (Inr (JBool True), st2)))"

definition deleteUser :: "state \<Rightarrow> jsval \<Rightarrow> (js_error + jsval) \<times> state" where
  "deleteUser st uid =
     (case getUserModel st of
        Inl e \<Rightarrow> (Inl e, st)
      | Inr User \<Rightarrow>
          (case deleteUser_try st uid of
             (Inl error, st') \<Rightarrow>
               (Inl (service_catch Msg_delete_failed ''USER_DELETE_FAILED'' error), st')
           | (Inr v, st') \<Rightarrow> (Inr v, st')))"

subsection \<open>\<^verbatim>\<open>register\<close>\<close>

text \<open>
  The \<^verbatim>\<open>beforeSave\<close> hook of \<^verbatim>\<open>models/sysUser.js\<close>, for an instance whose password changed:
  a truthy password is hashed with the row's salt, which is generated when the row has
  none. The bcrypt functions are parameters; \<^verbatim>\<open>bcrypt.hash\<close> rejects arguments that are
  not strings.
\<close>

definition beforeSave :: "(string \<Rightarrow> string \<Rightarrow> string) \<Rightarrow> string \<Rightarrow> obj \<Rightarrow> js_error + obj" where
  "beforeSave hash genSalt user =
     (if truthy (obj_get user ''password'')
      then (let user1 = (if \<not> truthy (obj_get user ''salt'')
                         then obj_set user ''salt'' (JStr genSalt) else user)
            in case (obj_get user1 ''password'', obj_get user1 ''salt'') of
                 (JStr password, JStr salt) \<Rightarrow>
                   Inr (obj_set user1 ''password'' (JStr (hash password salt)))
               | _ \<Rightarrow> Inl (Thrown ''Error''))
      else Inr user)"

text \<open>
  \<^verbatim>\<open>User.create(values)\<close>: the instance is built from the defaults of the model
  (\<^verbatim>\<open>status: 1\<close>, \<^verbatim>\<open>del_flag: 0\<close>) and the given attributes, the hook runs, and the row is
  inserted unless the primary key is missing or a unique index is violated.
\<close>

definition create_user ::
  "(string \<Rightarrow> string \<Rightarrow> string) \<Rightarrow> string \<Rightarrow> state \<Rightarrow> obj \<Rightarrow> js_error + obj \<times> state" where
  "create_user hash genSalt st values =
     (if db st \<noteq> DbOk then Inl (Thrown ''SequelizeDatabaseError'')
      else case beforeSave hash genSalt
                  (instance_update [(''status'', JNum 1), (''del_flag'', JNum 0)] values) of
             Inl e \<Rightarrow> Inl e
           | Inr newUser \<Rightarrow>
               if obj_get newUser ''id'' = JUndefined \<or> obj_get newUser ''id'' = JNull
               then Inl (Thrown ''SequelizeValidationError'')
               else if unique_violation (sys_user st) newUser
               then Inl (Thrown ''SequelizeUniqueConstraintError'')
               else Inr (newUser, st\<lparr>sys_user := sys_user st @ [newUser]\<rparr>))"

text \<open>
  The body of the \<^verbatim>\<open>try\<close>. The \<^verbatim>\<open>where\<close> of the first query has the computed key
  \<^verbatim>\<open>[User.sequelize.Op.or]\<close>, evaluated before the query is made. Sequelize refuses a
  \<^verbatim>\<open>where\<close> value that is \<^verbatim>\<open>undefined\<close>.
\<close>

definition register_try ::
  "(string \<Rightarrow> string \<Rightarrow> string) \<Rightarrow> string \<Rightarrow> state \<Rightarrow> obj \<Rightarrow> (js_error + jsval) \<times> state" where
  "register_try hash genSalt st userData =
     (case property_of sequelize_Op ''or'' of
        Inl e \<Rightarrow> (Inl e, st)
      | Inr Op_or \<Rightarrow>
          if db st \<noteq> DbOk then (Inl (Thrown ''SequelizeDatabaseError''), st)
          else if obj_get userData ''username'' = JUndefined
                  \<or> obj_get userData ''email'' = JUndefined
          then (Inl (Thrown ''Error''), st)
          else case find (\<lambda>row. obj_get row ''username'' = obj_get userData ''username''
                                \<or> obj_get row ''email'' = obj_get userData ''email'')
                         (sys_user st) of
                 Some existingUser \<Rightarrow>
                   if strict_eq (obj_get existingUser ''username'') (obj_get userData ''username'')
                   then (Inl (ApiError CONFLICT Msg_username_exists ''USER_USERNAME_EXISTS''), st)
                   else (Inl (ApiError CONFLICT Msg_email_exists ''USER_EMAIL_EXISTS''), st)
               | None \<Rightarrow>
                   (case create_user hash genSalt st
                           (obj_set
                              (obj_set userData ''roles''
                                 (js_or (obj_get userData ''roles'') (JArr [JStr ''user''])))
                              ''status'' (js_or (obj_get userData ''status'') (JNum 1))) of
                      Inl e \<Rightarrow> (Inl e, st)
                    | Inr (user, st') \<Rightarrow> (Inr (JObj (sanitizeUser user)), st')))"

definition register ::
  "(string \<Rightarrow> string \<Rightarrow> string) \<Rightarrow> string \<Rightarrow> state \<Rightarrow> obj \<Rightarrow> (js_error + jsval) \<times> state" where
  "register hash genSalt st userData =
     (case getUserModel st of
        Inl e \<Rightarrow> (Inl e, st)
      | Inr User \<Rightarrow>
          (case register_try hash genSalt st userData of
             (Inl error, st') \<Rightarrow>
               (Inl (service_catch Msg_registration_failed ''USER_REGISTRATION_FAILED'' error), st')
           | (Inr v, st') \<Rightarrow> (Inr v, st')))"

subsection \<open>\<^verbatim>\<open>getUsers\<close>\<close>

text \<open>
  The \<^verbatim>\<open>where\<close> object is built before the query. With a truthy \<^verbatim>\<open>search\<close> option the key
  \<^verbatim>\<open>User.sequelize.Op.or\<close> is read, with a truthy \<^verbatim>\<open>role\<close> option the key
  \<^verbatim>\<open>User.sequelize.Op.and\<close>; with neither, no operator is read.
\<close>

definition getUsers_where :: "obj \<Rightarrow> js_error + unit" where
  "getUsers_where options =
     (case (if truthy (obj_get options ''search'') then property_of sequelize_Op ''or''
            else Inr JUndefined) of
        Inl e \<Rightarrow> Inl e
      | Inr Op_or \<Rightarrow>
          (case (if truthy (obj_get options ''role'') then property_of sequelize_Op ''and''
                 else Inr JUndefined) of
             Inl e \<Rightarrow> Inl e
           | Inr Op_and \<Rightarrow> Inr ()))"

text \<open>
  \<^verbatim>\<open>User.findAndCountAll({ where, order, limit, offset, attributes: { exclude: [...] } })\<close>.
  Which rows the database selects for the options, how many it counts, and whether it
  refuses the query, is the database's doing: \<open>select\<close> is a parameter. The projection
  (\<^verbatim>\<open>attributes\<close>) is applied to every selected row. The \<^verbatim>\<open>pagination\<close> object is computed
  from the options and the count; it is a parameter too. The \<^verbatim>\<open>catch\<close> of this method
  replaces every exception.
\<close>

definition getUsers ::
  "(obj \<Rightarrow> obj list \<Rightarrow> js_error + obj list \<times> int) \<Rightarrow> (obj \<Rightarrow> int \<Rightarrow> jsval) \<Rightarrow> state \<Rightarrow> obj
     \<Rightarrow> (js_error + jsval) \<times> state" where
  "getUsers select pagination st options =
     (case getUserModel st of
        Inl e \<Rightarrow> (Inl e, st)
      | Inr User \<Rightarrow>
          (case (case getUsers_where options of
                   Inl e \<Rightarrow> Inl e
                 | Inr u \<Rightarrow>
                     if db st \<noteq> DbOk then Inl (Thrown ''SequelizeDatabaseError'')
                     else select options (sys_user st)) of
             Inl error \<Rightarrow>
               (Inl (ApiError INTERNAL_SERVER_ERROR Msg_list_failed ''USER_LIST_FAILED''), st)
           | Inr (rows, count) \<Rightarrow>
               (Inr (JObj [(''users'',
                            JArr (map (\<lambda>row. JObj (exclude_attributes
                                        [''password'', ''passwordResetToken'',
                                         ''passwordResetExpires''] row)) rows)),
                           (''pagination'', pagination options count)]),
                st)))"

section \<open>The lockout bookkeeping of \<^verbatim>\<open>models/user.js\<close>\<close>

text \<open>
  \<^verbatim>\<open>models/user.js\<close> defines a second \<^verbatim>\<open>User\<close> model, with the fields
  \<^verbatim>\<open>failedLoginAttempts\<close>, \<^verbatim>\<open>lockUntil\<close> and \<^verbatim>\<open>lastLogin\<close> and three methods over them.
  \<^verbatim>\<open>utils/database.js\<close> does not register this model, and no function of the repository
  calls \<^verbatim>\<open>incrementFailedLogins\<close>. Only the three fields are kept here.
\<close>

record user_js =
  failedLoginAttempts :: int
  lockUntil :: "int option"
  lastLogin :: "int option"

definition user_js_updateLoginTime :: "int \<Rightarrow> user_js \<Rightarrow> user_js" where
  "user_js_updateLoginTime now u =
     u\<lparr>lastLogin := Some now, failedLoginAttempts := 0, lockUntil := None\<rparr>"

text \<open>\<^verbatim>\<open>lockTime.setMinutes(lockTime.getMinutes() + 30)\<close>: thirty minutes from now.\<close>

definition user_js_incrementFailedLogins :: "int \<Rightarrow> user_js \<Rightarrow> user_js" where
  "user_js_incrementFailedLogins now u =
     (let u1 = u\<lparr>failedLoginAttempts := failedLoginAttempts u + 1\<rparr>
      in if 5 \<le> failedLoginAttempts u1 then u1\<lparr>lockUntil := Some (now + 30 * 60 * 1000)\<rparr>
         else u1)"

definition user_js_isLocked :: "int \<Rightarrow> user_js \<Rightarrow> bool" where
  "user_js_isLocked now u = (case lockUntil u of None \<Rightarrow> False | Some t \<Rightarrow> now < t)"

section \<open>The logout route (\<^verbatim>\<open>routes/api/auth.js\<close>, \<^verbatim>\<open>POST /auth/logout\<close>)\<close>

text \<open>
  \<^verbatim>\<open>router.post('/logout', authenticate, asyncHandler(...))\<close>. The handler awaits
  \<^verbatim>\<open>logout(token, req.user)\<close>, ignores what it resolves to and answers
  \<^verbatim>\<open>{ success: true, message }\<close>; \<^verbatim>\<open>asyncHandler\<close> passes a rejection to \<^verbatim>\<open>next\<close>. The
  route file requires its service as \<^verbatim>\<open>services/userService\<close>, a module that the
  repository does not contain: the \<^verbatim>\<open>logout\<close> of that service is a parameter, \<open>userService_logout\<close>.
\<close>

datatype response = Json_success message

definition logout_route ::
  "jwt_lib \<Rightarrow> (state \<Rightarrow> int \<Rightarrow> string \<Rightarrow> identity option \<Rightarrow> (js_error + bool) \<times> state)
     \<Rightarrow> state \<Rightarrow> int \<Rightarrow> request \<Rightarrow> (js_error + response) \<times> state" where
  "logout_route lib userService_logout st now req =
     (case authenticate lib st now req of
        Inl e \<Rightarrow> (Inl e, st)
      | Inr decoded \<Rightarrow>
          (case userService_logout st now (bearer_token (the (authorization req)))
                  (Some decoded) of
             (Inl e, st') \<Rightarrow> (Inl e, st')
           | (Inr b, st') \<Rightarrow> (Inr (Json_success Msg_logout_success), st')))"

section \<open>What must not leave the service\<close>

text \<open>
  The fields that \<^verbatim>\<open>sanitizeUser\<close> and the \<^verbatim>\<open>exclude\<close> lists name. A value carries no
  secret when it is an object without these fields, or the JSON text of such a value,
  or not an object at all.
\<close>

definition secret_fields :: "string list" where
  "secret_fields = [''password'', ''passwordResetToken'', ''passwordResetExpires'']"

fun no_secrets :: "jsval \<Rightarrow> bool" where
  "no_secrets (JObj kvs) = (obj_keys kvs \<inter> set secret_fields = {})"
| "no_secrets (JText v) = no_secrets v"
| "no_secrets v = True"

definition cache_sanitized :: "state \<Rightarrow> bool" where
  "cache_sanitized st = (\<forall>key text e. cache st key = Some (text, e) \<longrightarrow> no_secrets text)"

text \<open>
  The states the service can be in. It starts with an empty cache and is the only
  writer of the cache; the store, and whether store and cache answer, may change in any
  way between two calls (\<open>environment\<close>); every method may be called with any arguments
  and any behaviour of the libraries.
\<close>

inductive reachable :: "state \<Rightarrow> bool" where
  init: "cache st = Map.empty \<Longrightarrow> reachable st"
| environment:
    "reachable st \<Longrightarrow>
     reachable (st\<lparr>db := d, cache_up := up, sys_user := us, sys_role := rs,
                   sys_permission := ps, sys_user_role := ur, sys_role_permission := rp\<rparr>)"
| after_register: "reachable st \<Longrightarrow> reachable (snd (register hash genSalt st userData))"
| after_login:
    "reachable st \<Longrightarrow> reachable (snd (login compare sign st now username password))"
| after_logout: "reachable st \<Longrightarrow> reachable (snd (logout lib st now token user))"
| after_getUsers: "reachable st \<Longrightarrow> reachable (snd (getUsers select pagination st options))"
| after_getUserById: "reachable st \<Longrightarrow> reachable (snd (getUserById st now uid))"
| after_updateUser: "reachable st \<Longrightarrow> reachable (snd (updateUser st uid userData))"
| after_deleteUser: "reachable st \<Longrightarrow> reachable (snd (deleteUser st uid))"

section \<open>A small installation, for the scenarios\<close>

text \<open>
  One user, \<^verbatim>\<open>alice\<close>, active and not deleted, whose stored hash the comparison function
  matches with \<^verbatim>\<open>Correct1!\<close>. She holds the roles \<^verbatim>\<open>r1\<close> and \<^verbatim>\<open>r2\<close>; \<^verbatim>\<open>r1\<close> grants the codes
  \<^verbatim>\<open>A\<close> and \<^verbatim>\<open>B\<close>, \<^verbatim>\<open>r2\<close> grants \<^verbatim>\<open>B\<close> and \<^verbatim>\<open>C\<close>; \<^verbatim>\<open>r1\<close> is also joined to a soft-deleted
  permission \<^verbatim>\<open>D\<close> and \<^verbatim>\<open>r2\<close> to a permission \<^verbatim>\<open>E\<close> whose status is not valid. The token
  \<^verbatim>\<open>tok\<close> is hers, correctly signed, and expires at second 100.
\<close>

definition demo_row :: obj where
  "demo_row =
     [(''id'', JStr ''u1''), (''username'', JStr ''alice''), (''password'', JStr ''hash1''),
      (''salt'', JStr ''salt1''), (''email'', JStr ''alice@example.org''),
      (''status'', JNum 1), (''del_flag'', JNum 0), (''update_time'', JDate 0)]"

definition demo_permission :: "string \<Rightarrow> string \<Rightarrow> int \<Rightarrow> string \<Rightarrow> obj" where
  "demo_permission pid code deleted status =
     [(''id'', JStr pid), (''perms'', JStr code), (''del_flag'', JNum deleted),
      (''status'', JStr status)]"

definition demo_state :: state where
  "demo_state =
     \<lparr> db = DbOk, cache_up = True,
       sys_user = [demo_row],
       sys_role = [[(''id'', JStr ''r1''), (''role_code'', JStr ''manager'')],
                   [(''id'', JStr ''r2''), (''role_code'', JStr ''support'')]],
       sys_permission = [demo_permission ''pa'' ''A'' 0 ''1'', demo_permission ''pb'' ''B'' 0 ''1'',
                         demo_permission ''pc'' ''C'' 0 ''1'', demo_permission ''pd'' ''D'' 1 ''1'',
                         demo_permission ''pe'' ''E'' 0 ''0''],
       sys_user_role = [[(''user_id'', JStr ''u1''), (''role_id'', JStr ''r1'')],
                        [(''user_id'', JStr ''u1''), (''role_id'', JStr ''r2'')]],
       sys_role_permission =
         [[(''role_id'', JStr ''r1''), (''permission_id'', JStr ''pa'')],
          [(''role_id'', JStr ''r1''), (''permission_id'', JStr ''pb'')],
          [(''role_id'', JStr ''r1''), (''permission_id'', JStr ''pd'')],
          [(''role_id'', JStr ''r2''), (''permission_id'', JStr ''pb'')],
          [(''role_id'', JStr ''r2''), (''permission_id'', JStr ''pc'')],
          [(''role_id'', JStr ''r2''), (''permission_id'', JStr ''pe'')]],
       cache = Map.empty \<rparr>"

definition demo_compare :: "string \<Rightarrow> string \<Rightarrow> bool" where
  "demo_compare candidate hash = (candidate = ''Correct1!'' \<and> hash = ''hash1'')"

definition demo_sign :: "obj \<Rightarrow> int \<Rightarrow> string" where
  "demo_sign payload now = ''tok''"

definition demo_identity :: identity where
  "demo_identity = \<lparr> ident_id = JStr ''u1'', ident_roles = [JStr ''user''],
                      ident_tenantId = JUndefined, ident_exp = Some 100 \<rparr>"

definition demo_lib :: jwt_lib where
  "demo_lib token = (if token = ''tok'' then Some (True, demo_identity) else None)"

definition demo_request :: request where
  "demo_request = \<lparr> authorization = Some ''Bearer tok'', params = [], body = [], query = [],
                     req_user = None \<rparr>"

text \<open>
  What \<^verbatim>\<open>getUserById\<close> selects of \<^verbatim>\<open>alice\<close>'s row; the state after \<^verbatim>\<open>getUserById('u1')\<close> at
  time 5000, which reads the row and caches it; and the state after \<^verbatim>\<open>logout\<close> has then been called with her token and identity at
  time 6000.
\<close>

definition demo_selected :: obj where
  "demo_selected =
     exclude_attributes [''password'', ''passwordResetToken'', ''passwordResetExpires''] demo_row"

definition demo_cached :: state where
  "demo_cached = snd (getUserById demo_state 5000 (JStr ''u1''))"

definition demo_logged_out :: state where
  "demo_logged_out = snd (logout demo_lib demo_cached 6000 ''tok'' (Some demo_identity))"

text \<open>
  The scenario of repeated attempts: \<^verbatim>\<open>login\<close> is called once per password of the list,
  each call on the state the one before left, one second apart; the outcomes are
  collected in order.
\<close>

fun login_attempts ::
  "(string \<Rightarrow> string \<Rightarrow> bool) \<Rightarrow> (obj \<Rightarrow> int \<Rightarrow> string) \<Rightarrow> state \<Rightarrow> int \<Rightarrow> string \<Rightarrow> string list
     \<Rightarrow> (js_error + jsval) list \<times> state" where
  "login_attempts compare sign st now username [] = ([], st)"
| "login_attempts compare sign st now username (password # rest) =
     (case login compare sign st now username password of
        (outcome, st1) \<Rightarrow>
          (case login_attempts compare sign st1 (now + 1000) username rest of
             (outcomes, st2) \<Rightarrow> (outcome # outcomes, st2)))"

section \<open>Facts about objects\<close>

lemmas demo_defs = demo_state_def demo_row_def demo_permission_def demo_compare_def demo_sign_def
  demo_identity_def demo_lib_def demo_request_def

lemmas service_defs = login_def login_try_def login_found_def getUserModel_def findOne_login_def
  property_of_def sequelize_Op_def
  include_roles_def include_permissions_def validatePassword_def isLocked_def strict_eq_def
  save_update_time_def generateToken_def extract_permissions_def push_perm_def sanitizeUser_def
  toJSON_def role_toJSON_def redis_set_def redis_get_def redis_del_def client_setex_def
  client_set_def client_get_def client_del_def user_key_def CACHE_PREFIXES_USER_def
  CACHE_TTL_LONG_def CACHE_TTL_MEDIUM_def CACHE_TTL_DAY_def obj_get_def obj_set_def obj_omit_def
  service_catch_def logout_def logout_try_def logout_user_part_def expiryTime_def
  getTokenExpiry_def jwt_decode_def has_id_def findByPk_def getUserById_def getUserById_try_def
  exclude_attributes_def live_def Let_def

lemma obj_keys_omit: "obj_keys (obj_omit ks ob) = obj_keys ob - set ks"
  by (auto simp: obj_keys_def obj_omit_def)

lemma obj_keys_set: "obj_keys (obj_set ob k v) = insert k (obj_keys ob)"
  by (simp add: obj_keys_def obj_set_def dom_update)

lemma obj_get_set: "obj_get (obj_set ob k v) k' = (if k' = k then v else obj_get ob k')"
  by (simp add: obj_get_def obj_set_def update_conv')

lemma map_of_omit: "map_of (obj_omit ks ob) k = (if k \<in> set ks then None else map_of ob k)"
  by (induction ob) (auto simp: obj_omit_def)

lemma obj_get_omit: "k \<notin> set ks \<Longrightarrow> obj_get (obj_omit ks ob) k = obj_get ob k"
  by (simp add: obj_get_def map_of_omit)

section \<open>The operators of the query\<close>

text \<open>
  Reading any operator from \<^verbatim>\<open>User.sequelize.Op\<close> throws a \<^verbatim>\<open>TypeError\<close>. The queries of
  \<^verbatim>\<open>login\<close> and \<^verbatim>\<open>register\<close> read \<^verbatim>\<open>Op.or\<close> while their argument is built, inside the
  \<^verbatim>\<open>try\<close>: no query is made, and the handler turns the exception into the method's own
  500. So \<^verbatim>\<open>login\<close> rejects with \<^verbatim>\<open>AUTH_LOGIN_FAILED\<close> and \<^verbatim>\<open>register\<close> with
  \<^verbatim>\<open>USER_REGISTRATION_FAILED\<close> for every argument, and neither changes the store or the
  cache. (With no connection to the database, \<^verbatim>\<open>getUserModel\<close> has already thrown,
  outside the \<^verbatim>\<open>try\<close>.)
\<close>

lemma property_of_Op: "property_of sequelize_Op k = Inl (Thrown ''TypeError'')"
  by (simp add: property_of_def sequelize_Op_def)

lemma findOne_login_throws: "findOne_login st username = Inl (Thrown ''TypeError'')"
  by (simp add: findOne_login_def property_of_Op)

lemma login_rejects:
  "login compare sign st now username password
     = (Inl (if db st = DbCannotConnect then Thrown ''SequelizeConnectionError''
             else ApiError INTERNAL_SERVER_ERROR Msg_login_failed ''AUTH_LOGIN_FAILED''), st)"
  by (simp add: login_def login_try_def getUserModel_def findOne_login_throws service_catch_def)

lemma register_rejects:
  "register hash genSalt st userData
     = (Inl (if db st = DbCannotConnect then Thrown ''SequelizeConnectionError''
             else ApiError INTERNAL_SERVER_ERROR Msg_registration_failed
                    ''USER_REGISTRATION_FAILED''), st)"
  by (simp add: register_def register_try_def getUserModel_def property_of_Op service_catch_def)

lemma getUsers_search_rejects:
  "truthy (obj_get options ''search'') \<or> truthy (obj_get options ''role'') \<Longrightarrow>
   db st \<noteq> DbCannotConnect \<Longrightarrow>
   getUsers select pagination st options
     = (Inl (ApiError INTERNAL_SERVER_ERROR Msg_list_failed ''USER_LIST_FAILED''), st)"
  by (auto simp: getUsers_def getUsers_where_def getUserModel_def property_of_Op)

section \<open>The statements of \<^verbatim>\<open>login\<close> after the query\<close>

text \<open>
  What the statements that follow the query do with an instance, whichever instance
  they are given. They leave the state alone when they throw; they never throw
  \<^verbatim>\<open>AUTH_ACCOUNT_LOCKED\<close>, since a row that \<^verbatim>\<open>isLocked\<close> (status 2) has already been
  refused as inactive; they refuse a row whose status is not 1 before they look at the
  password; and when they succeed they change \<^verbatim>\<open>update_time\<close> of the user's row and
  nothing else in the store, and return under \<^verbatim>\<open>user.permissions\<close> the list collected
  from the roles of the instance.
\<close>

lemma login_found_failure_keeps_state:
  "fst (login_found compare sign st now found password) = Inl e
   \<Longrightarrow> snd (login_found compare sign st now found password) = st"
  by (auto simp: login_found_def Let_def split: sum.splits if_splits)

lemma login_found_never_locked:
  "fst (login_found compare sign st now found password)
     \<noteq> Inl (ApiError FORBIDDEN Msg_account_locked ''AUTH_ACCOUNT_LOCKED'')"
  by (auto simp: login_found_def Let_def isLocked_def strict_eq_def validatePassword_def
        FORBIDDEN_def UNAUTHORIZED_def
      split: sum.splits if_splits jsval.splits)

lemma login_found_inactive:
  "obj_get (user_row found) ''status'' \<noteq> JNum 1 \<Longrightarrow>
   login_found compare sign st now found password
     = (Inl (ApiError FORBIDDEN Msg_account_inactive ''AUTH_ACCOUNT_INACTIVE''), st)"
  by (simp add: login_found_def strict_eq_def)

lemma login_found_wrong_password:
  "obj_get (user_row found) ''status'' = JNum 1 \<Longrightarrow>
   validatePassword compare (user_row found) password = Inr False \<Longrightarrow>
   login_found compare sign st now found password
     = (Inl (ApiError UNAUTHORIZED Msg_credentials_incorrect ''AUTH_INVALID_CREDENTIALS''), st)"
  by (simp add: login_found_def strict_eq_def isLocked_def)

lemma login_found_success_stamps_only:
  assumes "login_found compare sign st now found password = (Inr result, st')"
  shows "sys_user st' = map (\<lambda>row. if obj_get row ''id'' = obj_get (user_row found) ''id''
                                  then obj_set row ''update_time'' (JDate now) else row)
                           (sys_user st)
     \<and> sys_role st' = sys_role st \<and> sys_permission st' = sys_permission st
     \<and> sys_user_role st' = sys_user_role st \<and> sys_role_permission st' = sys_role_permission st"
  using assms
  by (auto simp: login_found_def Let_def save_update_time_def redis_set_def
        client_setex_def client_set_def
      split: sum.splits if_splits)

lemma login_found_permissions:
  assumes "login_found compare sign st now found password = (Inr result, st')"
  shows "\<exists>userCache token.
           result = JObj [(''user'', JObj userCache), (''token'', token)]
         \<and> obj_get userCache ''permissions'' = JArr (extract_permissions (user_roles found))"
proof -
  from assms have r: "result = JObj [(''user'', JObj (sanitizeUser
                  (obj_set (toJSON (found\<lparr>user_row := obj_set (user_row found) ''update_time'' (JDate now)\<rparr>))
                     ''permissions'' (JArr (extract_permissions (user_roles found)))))),
               (''token'', JStr (generateToken sign now
                  (found\<lparr>user_row := obj_set (user_row found) ''update_time'' (JDate now)\<rparr>)))]"
    by (auto simp: login_found_def Let_def split: sum.splits if_splits)
  have "obj_get (sanitizeUser (obj_set ob ''permissions'' v)) ''permissions'' = v" for ob v
    by (simp add: sanitizeUser_def obj_get_omit obj_get_set)
  with r show ?thesis by simp
qed

text \<open>
  The list that the two loops collect from the roles that the \<^verbatim>\<open>include\<close> of the query
  describes has no repetition, and its elements are exactly the codes of the permissions
  that are joined to a role joined to the user, are not soft-deleted (\<^verbatim>\<open>del_flag = 0\<close>)
  and have the valid status (\<^verbatim>\<open>status = '1'\<close>). For \<^verbatim>\<open>alice\<close> it is \<^verbatim>\<open>[A, B, C]\<close>.
\<close>

lemma set_foldl_push_perm:
  "set (foldl push_perm acc ps)
     = set acc \<union> {c. \<exists>p \<in> set ps. c = obj_get p ''perms'' \<and> truthy c}"
  by (induction ps arbitrary: acc) (auto simp: push_perm_def)

lemma distinct_foldl_push_perm: "distinct acc \<Longrightarrow> distinct (foldl push_perm acc ps)"
  by (induction ps arbitrary: acc) (auto simp: push_perm_def)

lemma set_foldl_roles:
  "set (foldl (\<lambda>perms role. foldl push_perm perms (role_permissions role)) acc rs)
     = set acc \<union> {c. \<exists>role \<in> set rs. \<exists>p \<in> set (role_permissions role).
                          c = obj_get p ''perms'' \<and> truthy c}"
  by (induction rs arbitrary: acc) (auto simp: set_foldl_push_perm)

lemma distinct_foldl_roles:
  "distinct acc \<Longrightarrow>
   distinct (foldl (\<lambda>perms role. foldl push_perm perms (role_permissions role)) acc rs)"
  by (induction rs arbitrary: acc) (auto simp: distinct_foldl_push_perm)

lemma collected_permissions:
  "distinct (extract_permissions (include_roles st uid))
   \<and> set (extract_permissions (include_roles st uid))
     = {c. \<exists>role \<in> set (sys_role st). \<exists>perm \<in> set (sys_permission st).
             (\<exists>ur \<in> set (sys_user_role st).
                 obj_get ur ''user_id'' = uid \<and> obj_get ur ''role_id'' = obj_get role ''id'')
           \<and> (\<exists>rp \<in> set (sys_role_permission st).
                 obj_get rp ''role_id'' = obj_get role ''id''
               \<and> obj_get rp ''permission_id'' = obj_get perm ''id'')
           \<and> obj_get perm ''del_flag'' = JNum 0
           \<and> obj_get perm ''status'' = JStr ''1''
           \<and> c = obj_get perm ''perms'' \<and> truthy c}"
proof
  show "distinct (extract_permissions (include_roles st uid))"
    by (simp add: extract_permissions_def distinct_foldl_roles)
next
  show "set (extract_permissions (include_roles st uid))
     = {c. \<exists>role \<in> set (sys_role st). \<exists>perm \<in> set (sys_permission st).
             (\<exists>ur \<in> set (sys_user_role st).
                 obj_get ur ''user_id'' = uid \<and> obj_get ur ''role_id'' = obj_get role ''id'')
           \<and> (\<exists>rp \<in> set (sys_role_permission st).
                 obj_get rp ''role_id'' = obj_get role ''id''
               \<and> obj_get rp ''permission_id'' = obj_get perm ''id'')
           \<and> obj_get perm ''del_flag'' = JNum 0
           \<and> obj_get perm ''status'' = JStr ''1''
           \<and> c = obj_get perm ''perms'' \<and> truthy c}"
    unfolding extract_permissions_def set_foldl_roles include_roles_def include_permissions_def
    by auto
qed

lemma collected_permissions_alice:
  "extract_permissions (include_roles demo_state (JStr ''u1''))
     = [JStr ''A'', JStr ''B'', JStr ''C'']"
  by (simp add: extract_permissions_def include_roles_def include_permissions_def demo_state_def
        demo_permission_def obj_get_def push_perm_def)

section \<open>Permission resolution\<close>

text \<open>
  Claim C7, at a failing input. \<^verbatim>\<open>alice\<close> holds two roles that grant \<^verbatim>\<open>{A, B}\<close> and
  \<^verbatim>\<open>{B, C}\<close>; the only place where the service resolves permissions is \<^verbatim>\<open>login\<close>. Her
  login with the correct password rejects with \<^verbatim>\<open>AUTH_LOGIN_FAILED\<close> (500): the query
  that would load her roles is never made, the loops never run, no permission list is
  returned and nothing is cached.
\<close>

theorem login_returns_no_permissions:
  "login demo_compare demo_sign demo_state 5000 ''alice'' ''Correct1!''
     = (Inl (ApiError INTERNAL_SERVER_ERROR Msg_login_failed ''AUTH_LOGIN_FAILED''), demo_state)
   \<and> findOne_login demo_state ''alice'' = Inl (Thrown ''TypeError'')
   \<and> cache (snd (login demo_compare demo_sign demo_state 5000 ''alice'' ''Correct1!''))
        (user_key (JStr ''u1'')) = None"
  by (simp add: login_def login_try_def getUserModel_def findOne_login_def property_of_def
        sequelize_Op_def service_catch_def demo_state_def)

section \<open>Logout\<close>

lemma logout_user_part_throws: "\<exists>e. fst (logout_user_part st now uid) = Inl e"
  by (simp add: logout_user_part_def split: sum.splits)

lemma logout_try_throws:
  "has_id user \<Longrightarrow> \<exists>e. fst (logout_try lib st now token user) = Inl e"
  by (simp add: logout_try_def Let_def logout_user_part_throws)

lemma logout_eq:
  "logout lib st now token user
     = (Inr (case fst (logout_try lib st now token user) of Inl e \<Rightarrow> False | Inr b \<Rightarrow> b),
        snd (logout_try lib st now token user))"
  by (simp add: logout_def split: prod.splits sum.splits)

lemma logout_without_id:
  "\<not> has_id user \<Longrightarrow> fst (logout lib st now token user) = Inr True"
  by (simp add: logout_eq logout_try_def Let_def)

lemma logout_with_id: "has_id user \<Longrightarrow> fst (logout lib st now token user) = Inr False"
proof -
  assume "has_id user"
  then obtain e where "fst (logout_try lib st now token user) = Inl e"
    using logout_try_throws by blast
  then show ?thesis by (simp add: logout_eq)
qed

text \<open>
  Claim C10 as stated fails. The cache is unreachable, so the blacklist write fails;
  the wrapper swallows the failure and answers \<^verbatim>\<open>false\<close>, \<^verbatim>\<open>logout\<close> does not look at
  the answer, and, called without a user, it resolves to \<^verbatim>\<open>true\<close>, not to \<^verbatim>\<open>false\<close>.
\<close>

theorem logout_true_after_failed_blacklist_write:
  "redis_set (demo_state\<lparr>cache_up := False\<rparr>) 6000 (''blacklist:'' @ ''tok'') (JStr ''true'')
       (expiryTime demo_lib 6000 ''tok'')
     = (False, demo_state\<lparr>cache_up := False\<rparr>)
   \<and> logout demo_lib (demo_state\<lparr>cache_up := False\<rparr>) 6000 ''tok'' None
     = (Inr True, demo_state\<lparr>cache_up := False\<rparr>)"
  by (simp add: service_defs demo_defs)

text \<open>
  Claim C10, amended. \<^verbatim>\<open>logout\<close> never rejects: for every token, user, state and time it
  resolves to a boolean. A failed blacklist write does not make the result \<^verbatim>\<open>false\<close>:
  called without a user id, \<^verbatim>\<open>logout\<close> resolves to \<^verbatim>\<open>true\<close> whatever the cache does. A
  failure of the store while the user's row is read is caught, and \<^verbatim>\<open>logout\<close> resolves
  to \<^verbatim>\<open>false\<close>. The route awaits the \<^verbatim>\<open>logout\<close> of its service and ignores the value: with
  a service whose \<^verbatim>\<open>logout\<close> resolves, it answers with success once \<^verbatim>\<open>authenticate\<close> has
  accepted the token.
\<close>

theorem logout_never_rejects:
  "(\<exists>b. fst (logout lib st now token user) = Inr b)
   \<and> (\<not> has_id user \<longrightarrow> fst (logout lib st now token user) = Inr True)
   \<and> (has_id user \<and> db st \<noteq> DbOk \<longrightarrow> fst (logout lib st now token user) = Inr False)
   \<and> (\<forall>decoded b st'.
          authenticate lib st now req = Inr decoded
        \<and> userService_logout st now (bearer_token (the (authorization req))) (Some decoded)
            = (Inr b, st')
          \<longrightarrow> logout_route lib userService_logout st now req
                = (Inr (Json_success Msg_logout_success), st'))"
proof (intro conjI allI impI)
  show "\<exists>b. fst (logout lib st now token user) = Inr b"
    by (simp add: logout_eq)
next
  assume "\<not> has_id user"
  then show "fst (logout lib st now token user) = Inr True"
    by (rule logout_without_id)
next
  assume "has_id user \<and> db st \<noteq> DbOk"
  then show "fst (logout lib st now token user) = Inr False"
    by (simp add: logout_with_id)
next
  fix decoded b st'
  assume "authenticate lib st now req = Inr decoded
        \<and> userService_logout st now (bearer_token (the (authorization req))) (Some decoded)
            = (Inr b, st')"
  then show "logout_route lib userService_logout st now req
                = (Inr (Json_success Msg_logout_success), st')"
    by (simp add: logout_route_def)
qed

theorem logout_never_rejects_witness:
  "fst (logout demo_lib (demo_state\<lparr>db := DbQueryFails\<rparr>) 6000 ''tok'' (Some demo_identity))
     = Inr False
   \<and> fst (logout demo_lib demo_state 6000 ''tok'' None) = Inr True
   \<and> fst (logout_route demo_lib (logout demo_lib) demo_state 6000 demo_request)
     = Inr (Json_success Msg_logout_success)"
proof -
  have h: "has_id (Some demo_identity) \<and> db (demo_state\<lparr>db := DbQueryFails\<rparr>) \<noteq> DbOk"
    by (simp add: has_id_def demo_identity_def)
  have n: "\<not> has_id None"
    by (simp add: has_id_def)
  have a: "authenticate demo_lib demo_state 6000 demo_request = Inr demo_identity"
    by (simp add: authenticate_def demo_request_def bearer_token_def authenticate_try_def
          jwt_verify_def demo_lib_def demo_identity_def client_get_def demo_state_def)
  obtain b st' where
    s: "logout demo_lib demo_state 6000 (bearer_token (the (authorization demo_request)))
          (Some demo_identity) = (Inr b, st')"
    using logout_eq by blast
  from logout_never_rejects
         [where lib = demo_lib and st = "demo_state\<lparr>db := DbQueryFails\<rparr>" and now = 6000
            and token = "''tok''" and user = "Some demo_identity"] h
  have 1: "fst (logout demo_lib (demo_state\<lparr>db := DbQueryFails\<rparr>) 6000 ''tok''
                  (Some demo_identity)) = Inr False"
    by blast
  from logout_never_rejects
         [where lib = demo_lib and st = demo_state and now = 6000 and token = "''tok''"
            and user = None] n
  have 2: "fst (logout demo_lib demo_state 6000 ''tok'' None) = Inr True"
    by blast
  from logout_never_rejects
         [where lib = demo_lib and st = demo_state and now = 6000 and req = demo_request
            and userService_logout = "logout demo_lib"] a s
  have 3: "logout_route demo_lib (logout demo_lib) demo_state 6000 demo_request
             = (Inr (Json_success Msg_logout_success), st')"
    by blast
  from 1 2 3 show ?thesis by simp
qed

section \<open>Cache failures\<close>

text \<open>The wrapper of \<^verbatim>\<open>utils/redis.js\<close> answers a failing cache with \<^verbatim>\<open>null\<close> or \<^verbatim>\<open>false\<close>.\<close>

lemma redis_get_cache_down: "\<not> cache_up st \<Longrightarrow> redis_get st now key = JNull"
  by (simp add: redis_get_def client_get_def)

lemma redis_set_cache_down: "\<not> cache_up st \<Longrightarrow> redis_set st now key v ttl = (False, st)"
  by (simp add: redis_set_def client_setex_def client_set_def)

lemma redis_del_cache_down: "\<not> cache_up st \<Longrightarrow> redis_del st key = (False, st)"
  by (simp add: redis_del_def client_del_def)

text \<open>
  \<^verbatim>\<open>authenticate\<close> does not go through the wrapper: with the cache down, a token that
  verifies is answered with \<^verbatim>\<open>AUTH_SYSTEM_ERROR\<close>.
\<close>

lemma authenticate_cache_down_general:
  assumes "\<not> cache_up st" and "authorization req = Some h" and "h \<noteq> []"
    and "take 7 h = ''Bearer ''" and "bearer_token h \<noteq> []"
    and "jwt_verify lib now (bearer_token h) = Inr decoded"
  shows "authenticate lib st now req
     = Inl (ApiError INTERNAL_SERVER_ERROR Msg_auth_system_error ''AUTH_SYSTEM_ERROR'')"
  using assms
  by (simp add: authenticate_def authenticate_try_def client_get_def
        authenticate_inner_catch_def authenticate_outer_catch_def)

text \<open>
  Claim C2, at a failing input. The token \<^verbatim>\<open>tok\<close> is correctly signed, not expired at
  time 5000 and not revoked. With the cache reachable \<^verbatim>\<open>authenticate\<close> accepts it; with
  the cache unreachable the blacklist lookup \<^verbatim>\<open>Redis.client.get\<close> rejects, and the
  request is refused with \<^verbatim>\<open>AUTH_SYSTEM_ERROR\<close> (500): the cache failure reaches the
  caller.
\<close>

theorem authenticate_cache_down:
  "authenticate demo_lib (demo_state\<lparr>cache_up := False\<rparr>) 5000 demo_request
     = Inl (ApiError INTERNAL_SERVER_ERROR Msg_auth_system_error ''AUTH_SYSTEM_ERROR'')
   \<and> authenticate demo_lib demo_state 5000 demo_request = Inr demo_identity"
  by (simp add: authenticate_def demo_request_def bearer_token_def authenticate_try_def
        jwt_verify_def demo_lib_def demo_identity_def client_get_def demo_state_def
        authenticate_inner_catch_def authenticate_outer_catch_def)

section \<open>Revocation\<close>

text \<open>
  Claim C4, at two failing inputs. The token \<^verbatim>\<open>tok\<close> expires at second 100. Revoked at
  time 98500 it gets a blacklist entry that lives one second, to time 99500; at time
  99600 the token has not expired and \<^verbatim>\<open>authenticate\<close> accepts it. Revoked at time 99500
  the time to live is \<^verbatim>\<open>Math.floor(0.5) = 0\<close>, which the wrapper takes for "no expiry": the
  entry is stored for ever.
\<close>

theorem revoked_token_accepted:
  "authenticate demo_lib (snd (logout demo_lib demo_state 98500 ''tok'' (Some demo_identity)))
      99600 demo_request = Inr demo_identity
   \<and> cache (snd (logout demo_lib demo_state 98500 ''tok'' (Some demo_identity))) ''blacklist:tok''
      = Some (JText (JStr ''true''), Some 99500)
   \<and> cache (snd (logout demo_lib demo_state 99500 ''tok'' (Some demo_identity))) ''blacklist:tok''
      = Some (JText (JStr ''true''), None)"
  by (simp add: authenticate_def bearer_token_def authenticate_try_def jwt_verify_def
        service_defs demo_defs)

section \<open>Invalidation on write\<close>

text \<open>
  Claim C5, at a failing input. \<^verbatim>\<open>getUserById('u1')\<close> at time 5000 reads \<^verbatim>\<open>alice\<close>'s row
  and caches it under \<^verbatim>\<open>user:u1\<close>. \<^verbatim>\<open>logout\<close> with her token and identity at time 6000
  stamps her row (\<^verbatim>\<open>update_time\<close> becomes 6000) and then calls \<^verbatim>\<open>redisClient.delete\<close>,
  which does not exist: it resolves to \<^verbatim>\<open>false\<close>, the write stays and so does the cache
  key. \<^verbatim>\<open>getUserById('u1')\<close> at time 7000 returns the snapshot taken before the write,
  whose \<^verbatim>\<open>update_time\<close> is the date string of time 0.
\<close>

theorem logout_keeps_snapshot:
  "getUserById demo_state 5000 (JStr ''u1'')
     = (Inr (JObj demo_selected), demo_cached)
   \<and> cache demo_cached ''user:u1''
       = Some (JText (JObj demo_selected), Some 305000)
   \<and> logout demo_lib demo_cached 6000 ''tok'' (Some demo_identity) = (Inr False, demo_logged_out)
   \<and> sys_user demo_cached = [demo_row]
   \<and> sys_user demo_logged_out = [obj_set demo_row ''update_time'' (JDate 6000)]
   \<and> cache demo_logged_out ''user:u1'' = cache demo_cached ''user:u1''
   \<and> fst (getUserById demo_logged_out 7000 (JStr ''u1''))
       = Inr (json_roundtrip (JObj demo_selected))
   \<and> (\<exists>snapshot. fst (getUserById demo_logged_out 7000 (JStr ''u1'')) = Inr (JObj snapshot)
         \<and> obj_get snapshot ''update_time'' = JDateString 0)"
  by (simp add: demo_logged_out_def demo_cached_def demo_selected_def service_defs demo_defs)

section \<open>Lockout\<close>

text \<open>
  The methods of \<^verbatim>\<open>models/user.js\<close>, which \<^verbatim>\<open>login\<close> does not call: the fifth failure
  locks for thirty minutes, and \<^verbatim>\<open>updateLoginTime\<close> resets the counter and the lock.
\<close>

lemma user_js_updateLoginTime_resets:
  "failedLoginAttempts (user_js_updateLoginTime now u) = 0
   \<and> lockUntil (user_js_updateLoginTime now u) = None"
  by (simp add: user_js_updateLoginTime_def)

lemma user_js_fifth_failure_locks:
  "failedLoginAttempts u = 4 \<Longrightarrow>
     lockUntil (user_js_incrementFailedLogins now u) = Some (now + 1800000)
   \<and> (user_js_isLocked t (user_js_incrementFailedLogins now u) \<longleftrightarrow> t < now + 1800000)"
  by (simp add: user_js_incrementFailedLogins_def user_js_isLocked_def Let_def)

text \<open>
  Claim C1, at a failing input: the scenario of the specification. \<^verbatim>\<open>login\<close> is called
  for \<^verbatim>\<open>alice\<close> five times with a wrong password and then with the correct one. Each of
  the six calls rejects with \<^verbatim>\<open>AUTH_LOGIN_FAILED\<close> (500) and the state after them is the
  state before: no failure is counted, the account is not locked, and the sixth call is
  not refused with \<^verbatim>\<open>AUTH_ACCOUNT_LOCKED\<close>.
\<close>

theorem lockout_never_engages:
  "login_attempts demo_compare demo_sign demo_state 0 ''alice''
       [''Wr0ng!'', ''Wr0ng!'', ''Wr0ng!'', ''Wr0ng!'', ''Wr0ng!'', ''Correct1!'']
     = ([Inl (ApiError INTERNAL_SERVER_ERROR Msg_login_failed ''AUTH_LOGIN_FAILED''),
         Inl (ApiError INTERNAL_SERVER_ERROR Msg_login_failed ''AUTH_LOGIN_FAILED''),
         Inl (ApiError INTERNAL_SERVER_ERROR Msg_login_failed ''AUTH_LOGIN_FAILED''),
         Inl (ApiError INTERNAL_SERVER_ERROR Msg_login_failed ''AUTH_LOGIN_FAILED''),
         Inl (ApiError INTERNAL_SERVER_ERROR Msg_login_failed ''AUTH_LOGIN_FAILED''),
         Inl (ApiError INTERNAL_SERVER_ERROR Msg_login_failed ''AUTH_LOGIN_FAILED'')],
        demo_state)"
  by (simp add: login_def login_try_def getUserModel_def findOne_login_def property_of_def
        sequelize_Op_def service_catch_def demo_state_def)

section \<open>The error of a failed login\<close>

text \<open>
  Claim C6, at a failing input. A login with a name that matches no user and a login
  with \<^verbatim>\<open>alice\<close>'s name and a wrong password both reject with \<^verbatim>\<open>AUTH_LOGIN_FAILED\<close>
  (500), which is not the \<^verbatim>\<open>AUTH_INVALID_CREDENTIALS\<close> error (401) of the two
  \<^verbatim>\<open>throw\<close> statements: neither statement is reached.
\<close>

theorem failed_login_is_not_invalid_credentials:
  "login demo_compare demo_sign demo_state 0 ''nobody'' ''Wr0ng!''
     = (Inl (ApiError INTERNAL_SERVER_ERROR Msg_login_failed ''AUTH_LOGIN_FAILED''), demo_state)
   \<and> login demo_compare demo_sign demo_state 0 ''alice'' ''Wr0ng!''
     = (Inl (ApiError INTERNAL_SERVER_ERROR Msg_login_failed ''AUTH_LOGIN_FAILED''), demo_state)"
  by (simp add: login_def login_try_def getUserModel_def findOne_login_def property_of_def
        sequelize_Op_def service_catch_def demo_state_def)

section \<open>Sanitised users\<close>

text \<open>
  \<^verbatim>\<open>sanitizeUser\<close> and the \<^verbatim>\<open>exclude\<close> projection remove the three fields; every value
  the service writes to the cache is free of them, so every reachable state has a
  sanitised cache, and what \<^verbatim>\<open>JSON.parse\<close> gives back for a cached text has no field
  that the cached value did not have.
\<close>

lemma sanitizeUser_keys: "obj_keys (sanitizeUser user) \<inter> set secret_fields = {}"
  by (auto simp: sanitizeUser_def obj_keys_omit secret_fields_def)

lemma exclude_attributes_keys:
  "obj_keys (exclude_attributes
               [''password'', ''passwordResetToken'', ''passwordResetExpires''] row)
     \<inter> set secret_fields = {}"
  by (auto simp: exclude_attributes_def obj_keys_omit secret_fields_def)

lemma obj_keys_json_roundtrip:
  "obj_keys (map (\<lambda>kv. (fst kv, json_roundtrip (snd kv)))
                 (filter (\<lambda>kv. snd kv \<noteq> JUndefined) kvs)) \<subseteq> obj_keys kvs"
  by (force simp: obj_keys_def)

lemma no_secrets_json_roundtrip: "no_secrets v \<Longrightarrow> no_secrets (json_roundtrip v)"
proof (cases v)
  case (JObj kvs)
  assume "no_secrets v"
  with JObj obj_keys_json_roundtrip [of kvs] show ?thesis by auto
qed simp_all

lemma cache_sanitized_redis_set:
  "cache_sanitized st \<Longrightarrow> no_secrets v \<Longrightarrow> cache_sanitized (snd (redis_set st now key v ttl))"
  by (auto simp: cache_sanitized_def redis_set_def client_setex_def client_set_def
      split: if_splits)

lemma cache_sanitized_redis_del:
  "cache_sanitized st \<Longrightarrow> cache_sanitized (snd (redis_del st key))"
  by (auto simp: cache_sanitized_def redis_del_def client_del_def split: if_splits)

lemma no_secrets_redis_get: "cache_sanitized st \<Longrightarrow> no_secrets (redis_get st now key)"
proof -
  assume a: "cache_sanitized st"
  show ?thesis
  proof (cases "cache st key")
    case None
    then show ?thesis by (simp add: redis_get_def client_get_def)
  next
    case (Some p)
    obtain stored e where p: "p = (stored, e)" by (cases p)
    with a Some have "no_secrets stored" by (auto simp: cache_sanitized_def)
    then show ?thesis
      using Some p
      by (cases stored) (auto simp: redis_get_def client_get_def no_secrets_json_roundtrip)
  qed
qed

lemma cache_save_update_time: "cache (save_update_time st uid now) = cache st"
  by (simp add: save_update_time_def)

lemma cache_sanitized_login:
  "cache_sanitized st \<Longrightarrow> cache_sanitized (snd (login compare sign st now username password))"
  by (simp add: login_rejects)

lemma cache_sanitized_logout:
  "cache_sanitized st \<Longrightarrow> cache_sanitized (snd (logout lib st now token user))"
proof -
  assume a: "cache_sanitized st"
  let ?st1 = "snd (redis_set st now (''blacklist:'' @ token) (JStr ''true'') (expiryTime lib now token))"
  have b: "cache_sanitized ?st1" using a by (rule cache_sanitized_redis_set) simp
  have c: "cache (snd (logout_user_part ?st1 now uid)) = cache ?st1" for uid
    by (simp add: logout_user_part_def cache_save_update_time split: sum.splits option.splits)
  show ?thesis
    using b c [of "ident_id (the user)"]
    by (simp add: logout_eq logout_try_def Let_def cache_sanitized_def)
qed

lemma snd_getUserById:
  "snd (getUserById st now uid) = st
   \<or> (\<exists>row. snd (getUserById st now uid)
            = snd (redis_set st now (user_key uid)
                     (JObj (exclude_attributes
                              [''password'', ''passwordResetToken'', ''passwordResetExpires''] row))
                     CACHE_TTL_MEDIUM))"
  by (auto simp: getUserById_def getUserById_try_def Let_def
      split: sum.splits option.splits if_splits prod.splits)

lemma cache_sanitized_getUserById:
  "cache_sanitized st \<Longrightarrow> cache_sanitized (snd (getUserById st now uid))"
  using snd_getUserById [of st now uid]
  by (auto simp: exclude_attributes_keys intro!: cache_sanitized_redis_set)

lemma cache_sanitized_updateUser:
  "cache_sanitized st \<Longrightarrow> cache_sanitized (snd (updateUser st uid userData))"
proof -
  assume a: "cache_sanitized st"
  have "cache_sanitized (snd (redis_del (st\<lparr>sys_user := us\<rparr>) key))" for us key
    by (rule cache_sanitized_redis_del) (use a in \<open>simp add: cache_sanitized_def\<close>)
  then show ?thesis
    using a
    by (auto simp: updateUser_def updateUser_try_def Let_def
        split: sum.splits option.splits if_splits prod.splits)
qed

lemma cache_sanitized_deleteUser:
  "cache_sanitized st \<Longrightarrow> cache_sanitized (snd (deleteUser st uid))"
proof -
  assume a: "cache_sanitized st"
  have "cache_sanitized (snd (redis_del (st\<lparr>sys_user := us\<rparr>) key))" for us key
    by (rule cache_sanitized_redis_del) (use a in \<open>simp add: cache_sanitized_def\<close>)
  then show ?thesis
    using a
    by (auto simp: deleteUser_def deleteUser_try_def Let_def
        split: sum.splits option.splits if_splits prod.splits)
qed

lemma cache_register: "cache (snd (register hash genSalt st userData)) = cache st"
  by (simp add: register_rejects)

lemma snd_getUsers: "snd (getUsers select pagination st options) = st"
  by (auto simp: getUsers_def split: sum.splits prod.splits)

lemma reachable_cache_sanitized: "reachable st \<Longrightarrow> cache_sanitized st"
proof (induction rule: reachable.induct)
  case (init st)
  then show ?case by (simp add: cache_sanitized_def)
next
  case (environment st d up us rs ps ur rp)
  then show ?case by (simp add: cache_sanitized_def)
next
  case (after_register st hash genSalt userData)
  then show ?case by (simp add: cache_register cache_sanitized_def)
next
  case (after_login st compare sign now username password)
  then show ?case by (simp add: cache_sanitized_login)
next
  case (after_logout st lib now token user)
  then show ?case by (simp add: cache_sanitized_logout)
next
  case (after_getUsers st select pagination options)
  then show ?case by (simp add: snd_getUsers)
next
  case (after_getUserById st now uid)
  then show ?case by (simp add: cache_sanitized_getUserById)
next
  case (after_updateUser st uid userData)
  then show ?case by (simp add: cache_sanitized_updateUser)
next
  case (after_deleteUser st uid)
  then show ?case by (simp add: cache_sanitized_deleteUser)
qed

lemma register_no_secrets:
  "register hash genSalt st userData = (Inr r, st') \<Longrightarrow> no_secrets r"
  by (auto simp: register_def register_try_def Let_def sanitizeUser_keys
      split: sum.splits option.splits if_splits prod.splits)

lemma login_found_no_secrets:
  "login_found compare sign st now found password = (Inr r, st')
   \<Longrightarrow> \<exists>u t. r = JObj [(''user'', u), (''token'', t)] \<and> no_secrets u"
  by (auto simp: login_found_def Let_def sanitizeUser_keys split: sum.splits if_splits)

lemma login_no_secrets:
  "login compare sign st now username password = (Inr r, st')
   \<Longrightarrow> \<exists>u t. r = JObj [(''user'', u), (''token'', t)] \<and> no_secrets u"
  by (auto simp: login_def login_try_def dest: login_found_no_secrets
      split: sum.splits option.splits if_splits prod.splits)

lemma getUsers_no_secrets:
  "getUsers select pagination st options = (Inr r, st')
   \<Longrightarrow> \<exists>us p. r = JObj [(''users'', JArr us), (''pagination'', p)] \<and> (\<forall>u \<in> set us. no_secrets u)"
  by (auto simp: getUsers_def exclude_attributes_keys
      split: sum.splits option.splits if_splits prod.splits)

lemma getUserById_no_secrets:
  "cache_sanitized st \<Longrightarrow> getUserById st now uid = (Inr r, st') \<Longrightarrow> no_secrets r"
  by (auto simp: getUserById_def getUserById_try_def Let_def exclude_attributes_keys
        no_secrets_redis_get
      split: sum.splits option.splits if_splits prod.splits)

lemma updateUser_no_secrets:
  "updateUser st uid userData = (Inr r, st') \<Longrightarrow> no_secrets r"
  by (auto simp: updateUser_def updateUser_try_def Let_def sanitizeUser_keys
      split: sum.splits option.splits if_splits prod.splits)

text \<open>
  Claim C9. In every reachable state, the user object that \<^verbatim>\<open>register\<close>, \<^verbatim>\<open>login\<close>,
  \<^verbatim>\<open>getUserById\<close> or \<^verbatim>\<open>updateUser\<close> returns, and every user object in the list that
  \<^verbatim>\<open>getUsers\<close> returns, has none of the fields \<^verbatim>\<open>password\<close>, \<^verbatim>\<open>passwordResetToken\<close>,
  \<^verbatim>\<open>passwordResetExpires\<close>. This holds for a row read from the store and for a snapshot
  read from the cache.
\<close>

theorem returned_users_carry_no_secrets:
  assumes "reachable st"
  shows "(\<forall>r st'. register hash genSalt st userData = (Inr r, st') \<longrightarrow> no_secrets r)
     \<and> (\<forall>r st'. login compare sign st now username password = (Inr r, st')
           \<longrightarrow> (\<exists>u t. r = JObj [(''user'', u), (''token'', t)] \<and> no_secrets u))
     \<and> (\<forall>r st'. getUsers select pagination st options = (Inr r, st')
           \<longrightarrow> (\<exists>us p. r = JObj [(''users'', JArr us), (''pagination'', p)]
                      \<and> (\<forall>u \<in> set us. no_secrets u)))
     \<and> (\<forall>r st'. getUserById st now uid = (Inr r, st') \<longrightarrow> no_secrets r)
     \<and> (\<forall>r st'. updateUser st uid values = (Inr r, st') \<longrightarrow> no_secrets r)"
  using reachable_cache_sanitized [OF assms]
  by (blast intro: register_no_secrets getUserById_no_secrets updateUser_no_secrets
        dest: login_no_secrets getUsers_no_secrets)

theorem returned_users_carry_no_secrets_witness:
  "reachable demo_state \<and> reachable demo_cached
   \<and> obj_get demo_row ''password'' = JStr ''hash1''
   \<and> (\<exists>row. fst (getUserById demo_state 5000 (JStr ''u1'')) = Inr (JObj row)
          \<and> obj_get row ''username'' = JStr ''alice'' \<and> no_secrets (JObj row))
   \<and> (\<exists>snapshot. fst (getUserById demo_cached 5500 (JStr ''u1'')) = Inr (JObj snapshot)
          \<and> obj_get snapshot ''username'' = JStr ''alice'' \<and> no_secrets (JObj snapshot))"
proof -
  have r0: "reachable demo_state"
    by (rule reachable.init) (simp add: demo_state_def)
  have r1: "reachable demo_cached"
    unfolding demo_cached_def by (rule reachable.after_getUserById [OF r0])
  have p: "obj_get demo_row ''password'' = JStr ''hash1''"
    by (simp add: demo_row_def obj_get_def)
  have "\<exists>row. fst (getUserById demo_state 5000 (JStr ''u1'')) = Inr (JObj row)
          \<and> obj_get row ''username'' = JStr ''alice''"
    by (simp add: service_defs demo_defs)
  then obtain row
    where a: "fst (getUserById demo_state 5000 (JStr ''u1'')) = Inr (JObj row)"
      and a': "obj_get row ''username'' = JStr ''alice''" by blast
  from a have "getUserById demo_state 5000 (JStr ''u1'')
               = (Inr (JObj row), snd (getUserById demo_state 5000 (JStr ''u1'')))"
    by (simp add: prod_eq_iff)
  with returned_users_carry_no_secrets [OF r0, where now = 5000 and uid = "JStr ''u1''"]
  have a'': "no_secrets (JObj row)" by blast
  have "\<exists>snapshot. fst (getUserById demo_cached 5500 (JStr ''u1'')) = Inr (JObj snapshot)
          \<and> obj_get snapshot ''username'' = JStr ''alice''"
    by (simp add: demo_cached_def service_defs demo_defs)
  then obtain snapshot
    where s: "fst (getUserById demo_cached 5500 (JStr ''u1'')) = Inr (JObj snapshot)"
      and s': "obj_get snapshot ''username'' = JStr ''alice''" by blast
  from s have "getUserById demo_cached 5500 (JStr ''u1'')
               = (Inr (JObj snapshot), snd (getUserById demo_cached 5500 (JStr ''u1'')))"
    by (simp add: prod_eq_iff)
  with returned_users_carry_no_secrets [OF r1, where now = 5500 and uid = "JStr ''u1''"]
  have s'': "no_secrets (JObj snapshot)" by blast
  from r0 r1 p a a' a'' s s' s'' show ?thesis by blast
qed

section \<open>What holds of revocation and of invalidation\<close>

text \<open>
  With the cache reachable and at least one whole second of the token's life left,
  \<^verbatim>\<open>logout\<close> stores a blacklist entry that expires no later than the token and less than
  a second before it; while that entry lives, \<^verbatim>\<open>authenticate\<close> refuses the token with
  \<^verbatim>\<open>AUTH_TOKEN_REVOKED\<close>.
\<close>

lemma getTokenExpiry_nonzero: "getTokenExpiry lib token = Some t \<Longrightarrow> t \<noteq> 0"
  by (auto simp: getTokenExpiry_def split: option.splits if_splits)

lemma cache_logout_user_part: "cache (snd (logout_user_part st now uid)) = cache st"
  by (simp add: logout_user_part_def cache_save_update_time split: sum.splits option.splits)

lemma logout_blacklist_entry:
  assumes "cache_up st" and "getTokenExpiry lib token = Some tokenExpiry"
    and "1000 \<le> tokenExpiry - now"
  shows "\<exists>e. cache (snd (logout lib st now token user)) (''blacklist:'' @ token)
                 = Some (JText (JStr ''true''), Some e)
             \<and> e \<le> tokenExpiry \<and> tokenExpiry - e < 1000"
proof -
  let ?ttl = "(tokenExpiry - now) div 1000"
  have ttl: "expiryTime lib now token = ?ttl"
    using assms(2) getTokenExpiry_nonzero [OF assms(2)] by (simp add: expiryTime_def)
  have pos: "0 < ?ttl" using assms(3) by simp
  let ?st1 = "snd (redis_set st now (''blacklist:'' @ token) (JStr ''true'') ?ttl)"
  have c1: "cache ?st1 (''blacklist:'' @ token)
              = Some (JText (JStr ''true''), Some (now + ?ttl * 1000))"
    using assms(1) pos by (simp add: redis_set_def client_setex_def)
  have c2: "cache (snd (logout lib st now token user)) = cache ?st1"
    by (simp add: logout_eq logout_try_def Let_def ttl cache_logout_user_part)
  have m: "0 \<le> (tokenExpiry - now) mod 1000 \<and> (tokenExpiry - now) mod 1000 < 1000"
    by simp
  have d: "?ttl * 1000 + (tokenExpiry - now) mod 1000 = tokenExpiry - now"
    by (rule div_mult_mod_eq)
  have b: "now + ?ttl * 1000 \<le> tokenExpiry \<and> tokenExpiry - (now + ?ttl * 1000) < 1000"
    using m d by linarith
  from c1 c2 b show ?thesis by simp
qed

lemma authenticate_revoked:
  assumes "cache_up st" and "authorization req = Some h" and "h \<noteq> []"
    and "take 7 h = ''Bearer ''" and "bearer_token h \<noteq> []"
    and "jwt_verify lib t (bearer_token h) = Inr decoded"
    and "cache st (''blacklist:'' @ bearer_token h) = Some (JText v, e)" and "live t e"
  shows "authenticate lib st t req
           = Inl (ApiError UNAUTHORIZED Msg_token_revoked ''AUTH_TOKEN_REVOKED'')"
  using assms
  by (simp add: authenticate_def authenticate_try_def client_get_def
        authenticate_inner_catch_def authenticate_outer_catch_def)

text \<open>
  With the cache reachable, \<^verbatim>\<open>updateUser\<close> and \<^verbatim>\<open>deleteUser\<close> leave no snapshot under the
  user's key when they succeed, and \<^verbatim>\<open>getUserById\<close> then reads the store.
\<close>

lemma updateUser_deletes_snapshot:
  "cache_up st \<Longrightarrow> updateUser st uid userData = (Inr r, st') \<Longrightarrow> cache st' (user_key uid) = None"
  by (auto simp: updateUser_def updateUser_try_def Let_def redis_del_def client_del_def
      split: sum.splits option.splits if_splits prod.splits)

lemma deleteUser_deletes_snapshot:
  "cache_up st \<Longrightarrow> deleteUser st uid = (Inr r, st') \<Longrightarrow> cache st' (user_key uid) = None"
  by (auto simp: deleteUser_def deleteUser_try_def Let_def redis_del_def client_del_def
      split: sum.splits option.splits if_splits prod.splits)

lemma getUserById_reads_store:
  "cache st (user_key uid) = None \<Longrightarrow> db st = DbOk \<Longrightarrow>
   fst (getUserById st now uid)
     = (case find (\<lambda>row. obj_get row ''id'' = uid) (sys_user st) of
          None \<Rightarrow> Inl (ApiError NOT_FOUND Msg_user_not_found ''USER_NOT_FOUND'')
        | Some row \<Rightarrow> Inr (JObj (exclude_attributes
                                   [''password'', ''passwordResetToken'', ''passwordResetExpires'']
                                   row)))"
  by (auto simp: getUserById_def getUserById_try_def Let_def redis_get_def client_get_def
        getUserModel_def findByPk_def service_catch_def
      split: sum.splits option.splits if_splits prod.splits)

section \<open>Tenant isolation: the administrative bypass and the denial\<close>

lemma strict_eq_imp_eq: "strict_eq a b \<Longrightarrow> a = b"
  by (simp add: strict_eq_def)

text \<open>
  Claim C8. An authenticated identity whose roles include \<^verbatim>\<open>'admin'\<close> always passes the
  tenant check. Every other identity that requests a tenant id different from its own
  \<^verbatim>\<open>tenantId\<close> is refused with \<^verbatim>\<open>AUTH_TENANT_ACCESS_DENIED\<close> (403). The check is a
  function of the request alone, so the answer cannot depend on whether the resource
  asked for exists.
\<close>

theorem tenantAccess_admin_bypass_else_denied:
  assumes "req_user req = Some u"
  shows "(JStr ''admin'' \<in> set (ident_roles u) \<longrightarrow> tenantAccess p req = Inr ())
       \<and> (JStr ''admin'' \<notin> set (ident_roles u)
            \<and> requestedTenantId p req \<noteq> ident_tenantId u
          \<longrightarrow> tenantAccess p req
                = Inl (ApiError FORBIDDEN Msg_tenant_denied ''AUTH_TENANT_ACCESS_DENIED''))"
  using assms by (auto simp: tenantAccess_def dest: strict_eq_imp_eq)

theorem tenantAccess_witness:
  "tenantAccess ''tenantId''
     \<lparr> authorization = None, params = [(''tenantId'', JStr ''t2'')], body = [], query = [],
       req_user = Some \<lparr> ident_id = JStr ''u1'', ident_roles = [JStr ''admin''],
                         ident_tenantId = JStr ''t1'', ident_exp = None \<rparr> \<rparr> = Inr ()
   \<and> tenantAccess ''tenantId''
     \<lparr> authorization = None, params = [(''tenantId'', JStr ''t2'')], body = [], query = [],
       req_user = Some \<lparr> ident_id = JStr ''u1'', ident_roles = [JStr ''user''],
                         ident_tenantId = JStr ''t1'', ident_exp = None \<rparr> \<rparr>
     = Inl (ApiError FORBIDDEN Msg_tenant_denied ''AUTH_TENANT_ACCESS_DENIED'')"
proof -
  let ?admin = "\<lparr> ident_id = JStr ''u1'', ident_roles = [JStr ''admin''],
                  ident_tenantId = JStr ''t1'', ident_exp = None \<rparr>"
  let ?plain = "\<lparr> ident_id = JStr ''u1'', ident_roles = [JStr ''user''],
                  ident_tenantId = JStr ''t1'', ident_exp = None \<rparr>"
  let ?ra = "\<lparr> authorization = None, params = [(''tenantId'', JStr ''t2'')], body = [],
               query = [], req_user = Some ?admin \<rparr>"
  let ?rp = "\<lparr> authorization = None, params = [(''tenantId'', JStr ''t2'')], body = [],
               query = [], req_user = Some ?plain \<rparr>"
  have a: "req_user ?ra = Some ?admin" by simp
  have b: "req_user ?rp = Some ?plain" by simp
  have c: "requestedTenantId ''tenantId'' ?rp \<noteq> ident_tenantId ?plain"
    by (simp add: requestedTenantId_def js_or_def obj_get_def)
  from tenantAccess_admin_bypass_else_denied [OF a, of "''tenantId''"]
       tenantAccess_admin_bypass_else_denied [OF b, of "''tenantId''"] c
  show ?thesis by simp
qed

end
